theory Spec2Isabelle
  imports Main "HOL-Library.Word"
begin

unbundle bit_operations_syntax

section \<open>C values and the libc conversions the program calls\<close>

text \<open>
  A C string is the list of its characters before the terminating NUL. \<open>int\<close> and
  \<open>unsigned int\<close> are 32-bit words, \<open>unsigned long\<close> is a 64-bit word (LP64; on a
  32-bit target the cast to \<open>uid_t\<close> is the identity and gives the same values).
  Return codes of system calls and of the program's functions are mathematical integers:
  only \<open>0\<close>, \<open>-1\<close> and \<open>-EINVAL\<close> occur.
\<close>

type_synonym cint = "32 word"
type_synonym cuint = "32 word"
type_synonym ulong = "64 word"
type_synonym uid_t = "32 word"
type_synonym gid_t = "32 word"
type_synonym mode_t = "32 word"

definition isspace :: "char \<Rightarrow> bool" where
  "isspace c = (c \<in> set [CHR '' '', CHR 0x09, CHR 0x0A, CHR 0x0B, CHR 0x0C, CHR 0x0D])"

definition isdigit :: "char \<Rightarrow> bool" where
  "isdigit c = (c \<in> set ''0123456789'')"

definition digit_val :: "char \<Rightarrow> nat" where
  "digit_val c = of_char c - 48"

definition digits_val :: "string \<Rightarrow> nat" where
  "digits_val ds = foldl (\<lambda>acc c. 10 * acc + digit_val c) 0 ds"

text \<open>The text after an optional sign, and whether the sign was a minus.\<close>

definition skip_sign :: "string \<Rightarrow> bool \<times> string" where
  "skip_sign s = (case s of
       [] \<Rightarrow> (False, s)
     | c # r \<Rightarrow> if c = CHR ''-'' then (True, r) else if c = CHR ''+'' then (False, r) else (False, s))"

text \<open>
  \<open>strtoul(nptr, &endptr, 10)\<close>: white space, an optional sign, decimal digits. With no
  digit nothing is converted: the value is 0 and \<open>endptr\<close> is \<open>nptr\<close>. A value past
  \<open>ULONG_MAX\<close> is \<open>ULONG_MAX\<close>; a minus sign negates in \<open>unsigned long\<close>.
  The result is the value and the text \<open>endptr\<close> points to.
\<close>

definition strtoul :: "string \<Rightarrow> ulong \<times> string" where
  "strtoul nptr =
     (case skip_sign (dropWhile isspace nptr) of (neg, s) \<Rightarrow>
        let ds = takeWhile isdigit s; n = digits_val ds in
        if ds = [] then (0, nptr)
        else if 2 ^ 64 \<le> n then (- 1, dropWhile isdigit s)
        else ((if neg then - of_nat n else of_nat n), dropWhile isdigit s))"

text \<open>
  One \<open>%u\<close> conversion of \<open>sscanf\<close>: white space, an optional sign, at least one
  digit. \<open>None\<close> is a matching failure; otherwise the value stored (reduced to 32 bits)
  and the rest of the input.
\<close>

definition scan_uint :: "string \<Rightarrow> (cuint \<times> string) option" where
  "scan_uint s =
     (case skip_sign (dropWhile isspace s) of (neg, s') \<Rightarrow>
        let ds = takeWhile isdigit s' in
        if ds = [] then None
        else Some ((if neg then - of_nat (digits_val ds) else of_nat (digits_val ds)),
                   dropWhile isdigit s'))"

text \<open>
  \<open>sscanf(s, "%u:%u", &a, &b)\<close> as a function of the input and the two old values:
  the number of conversions stored (\<open>-1\<close> is \<open>EOF\<close>: the input ended before the first
  one) and the two values afterwards. Each conversion is stored as soon as it succeeds.
\<close>

definition sscanf_u_colon_u :: "string \<Rightarrow> cuint \<Rightarrow> cuint \<Rightarrow> int \<times> cuint \<times> cuint" where
  "sscanf_u_colon_u s a b =
     (case scan_uint s of
        None \<Rightarrow> ((if dropWhile isspace s = [] then - 1 else 0), a, b)
      | Some (a', r) \<Rightarrow>
          (case r of
             [] \<Rightarrow> (1, a', b)
           | c # r' \<Rightarrow>
               if c \<noteq> CHR '':'' then (1, a', b)
               else (case scan_uint r' of
                       None \<Rightarrow> (1, a', b)
                     | Some (b', _) \<Rightarrow> (2, a', b'))))"

text \<open>\<open>"%u"\<close> of \<open>snprintf\<close>: the decimal digits of a number.\<close>

fun dec :: "nat \<Rightarrow> string" where
  "dec n = (if n < 10 then [char_of (48 + n)] else dec (n div 10) @ [char_of (48 + n mod 10)])"

declare dec.simps [simp del]

text \<open>
  \<open>strsep(&pos, ":")\<close> with a one-character delimiter set: the token returned and the new
  \<open>pos\<close>; \<open>None\<close> is the null pointer.
\<close>

definition strsep :: "string option \<Rightarrow> char \<Rightarrow> string option \<times> string option" where
  "strsep stringp delim =
     (case stringp of
        None \<Rightarrow> (None, None)
      | Some s \<Rightarrow>
          (Some (takeWhile (\<lambda>c. c \<noteq> delim) s),
           (if delim \<in> set s then Some (tl (dropWhile (\<lambda>c. c \<noteq> delim) s)) else None)))"

text \<open>The C string held by a buffer that may contain NUL bytes.\<close>

definition cstr :: "string \<Rightarrow> string" where
  "cstr buf = takeWhile (\<lambda>c. c \<noteq> CHR 0x00) buf"

section \<open>klibc\_fixups.c\<close>

record passwd =
  pw_uid :: uid_t

record grp =
  gr_gid :: gid_t

text \<open>
  One pass of the loop body of \<open>get_id_by_name\<close> on a line already copied into
  \<open>line\<close>: \<open>None\<close> is \<open>continue\<close>, \<open>Some idv\<close> is \<open>break\<close> with \<open>id = idv\<close>.
\<close>

definition get_id_line :: "string \<Rightarrow> string \<Rightarrow> ulong option" where
  "get_id_line uname line =
     (case strsep (Some line) CHR '':'' of (name, pos1) \<Rightarrow>
        if name = None then None
        else case strsep pos1 CHR '':'' of (pass, pos2) \<Rightarrow>
          if pass = None then None
          else case strsep pos2 CHR '':'' of (idstr, pos3) \<Rightarrow>
            (case idstr of
               None \<Rightarrow> None
             | Some ids \<Rightarrow>
                 if Some uname = name
                 then (case strtoul ids of (idv, tail) \<Rightarrow> if tail \<noteq> [] then Some (- 1) else Some idv)
                 else None))"

text \<open>
  The loop of \<open>get_id_by_name\<close> over the mapped file \<open>buf\<close> from offset \<open>cur\<close>.
  \<open>buf_get_line\<close> (udev\_utils.c) and \<open>LINE_SIZE\<close> (udev.h) are not among the sources:
  they are the parameters \<open>bgl\<close> and \<open>lsz\<close>. The loop ends for every \<open>bgl\<close>, since
  \<open>cur\<close> grows by \<open>count + 1\<close>.
\<close>

function get_id_loop :: "(string \<Rightarrow> nat \<Rightarrow> nat) \<Rightarrow> nat \<Rightarrow> string \<Rightarrow> string \<Rightarrow> nat \<Rightarrow> ulong" where
  "get_id_loop bgl lsz uname buf cur =
     (if cur < length buf then
        (let count = bgl buf cur; bufline = drop cur buf in
         if lsz \<le> count then get_id_loop bgl lsz uname buf (cur + (count + 1))
         else (case get_id_line uname (cstr (take count bufline)) of
                 None \<Rightarrow> get_id_loop bgl lsz uname buf (cur + (count + 1))
               | Some idv \<Rightarrow> idv))
      else - 1)"
  by pat_completeness auto
termination
  by (relation "measure (\<lambda>(bgl, lsz, uname, buf, cur). length buf - cur)") auto

declare get_id_loop.simps [simp del]

text \<open>
  \<open>get_id_by_name\<close>; \<open>dbfile\<close> is what \<open>file_map\<close> gives for the database file:
  \<open>None\<close> when it cannot be mapped.
\<close>

definition get_id_by_name :: "(string \<Rightarrow> nat \<Rightarrow> nat) \<Rightarrow> nat \<Rightarrow> string \<Rightarrow> string option \<Rightarrow> ulong" where
  "get_id_by_name bgl lsz uname dbfile =
     (case dbfile of
        None \<Rightarrow> - 1
      | Some buf \<Rightarrow> get_id_loop bgl lsz uname buf 0)"

text \<open>
  The shims. \<open>pw_uid\<close> and \<open>gr_gid\<close> are unsigned, so \<open><\<close> is the unsigned order of
  words; the cast from \<open>unsigned long\<close> keeps the low 32 bits.
\<close>

definition getpwnam :: "(string \<Rightarrow> nat \<Rightarrow> nat) \<Rightarrow> nat \<Rightarrow> string option \<Rightarrow> string \<Rightarrow> passwd option" where
  "getpwnam bgl lsz pw_file name =
     (let pw = \<lparr>pw_uid = ucast (get_id_by_name bgl lsz name pw_file)\<rparr> in
      if pw_uid pw < 0 then None else Some pw)"

definition getgrnam :: "(string \<Rightarrow> nat \<Rightarrow> nat) \<Rightarrow> nat \<Rightarrow> string option \<Rightarrow> string \<Rightarrow> grp option" where
  "getgrnam bgl lsz gr_file name =
     (let gr = \<lparr>gr_gid = ucast (get_id_by_name bgl lsz name gr_file)\<rparr> in
      if gr_gid gr < 0 then None else Some gr)"

text \<open>
  The lines the loop reads, in order, and a line splitter for concrete runs: the number of
  characters before the next newline.
\<close>

function db_lines :: "(string \<Rightarrow> nat \<Rightarrow> nat) \<Rightarrow> nat \<Rightarrow> string \<Rightarrow> nat \<Rightarrow> string list" where
  "db_lines bgl lsz buf cur =
     (if cur < length buf then
        (let count = bgl buf cur in
         if lsz \<le> count then db_lines bgl lsz buf (cur + (count + 1))
         else cstr (take count (drop cur buf)) # db_lines bgl lsz buf (cur + (count + 1)))
      else [])"
  by pat_completeness auto
termination
  by (relation "measure (\<lambda>(bgl, lsz, buf, cur). length buf - cur)") auto

declare db_lines.simps [simp del]

definition line_name :: "string \<Rightarrow> string" where
  "line_name line = takeWhile (\<lambda>c. c \<noteq> CHR '':'') line"

definition name_absent :: "(string \<Rightarrow> nat \<Rightarrow> nat) \<Rightarrow> nat \<Rightarrow> string \<Rightarrow> string option \<Rightarrow> bool" where
  "name_absent bgl lsz uname dbfile =
     (case dbfile of
        None \<Rightarrow> True
      | Some buf \<Rightarrow> list_all (\<lambda>l. line_name l \<noteq> uname) (db_lines bgl lsz buf 0))"

definition count_to_newline :: "string \<Rightarrow> nat \<Rightarrow> nat" where
  "count_to_newline buf cur = length (takeWhile (\<lambda>c. c \<noteq> CHR 0x0A) (drop cur buf))"

text \<open>A small database file for concrete runs.\<close>

definition passwd_sample :: string where
  "passwd_sample = ''root:x:0:0:'' @ [CHR 0x0A] @ ''daemon:x:1:1:'' @ [CHR 0x0A]"


section \<open>The device descriptor and the collaborators of udev\_add.c\<close>

text \<open>
  \<open>struct udevice\<close> with the fields udev\_add.c reads or writes. \<open>major\<close>,
  \<open>minor\<close> and \<open>partitions\<close> are \<open>int\<close>s, \<open>mode\<close> is an \<open>unsigned int\<close>;
  \<open>partitions\<close> is kept as a mathematical integer (it only bounds a counting loop),
  \<open>test_run\<close> as a truth value.
\<close>

record udevice =
  devpath :: string
  name :: string
  owner :: string
  group :: string
  type :: char
  major :: cint
  minor :: cint
  mode :: mode_t
  symlink :: string
  partitions :: int
  kernel_name :: string
  devname :: string
  test_run :: bool

text \<open>A sysfs class device: its attributes, name and value.\<close>

type_synonym sysfs_class_device = "(string \<times> string) list"

text \<open>
  Modelled from the spec: \<open>sysfs_get_classdev_attr\<close> (libsysfs, not among the sources)
  is the sysfs attribute lookup: the string value of a named attribute of a class device,
  \<open>None\<close> (the null pointer) when the attribute is missing.
\<close>

definition sysfs_get_classdev_attr :: "sysfs_class_device \<Rightarrow> string \<Rightarrow> string option" where
  "sysfs_get_classdev_attr class_dev attr_name = map_of class_dev attr_name"

text \<open>
  What udev\_add.c takes from outside: the global \<open>udev_root\<close>, the buffer sizes
  \<open>NAME_SIZE\<close> and \<open>DEVPATH_SIZE\<close> of udev.h, the naming collaborator
  \<open>namedev_name_device\<close> (its return code and the descriptor as it leaves it), and the
  libc lookups \<open>getpwnam\<close> and \<open>getgrnam\<close> (the shims above in a klibc build).
\<close>

record config =
  udev_root :: string
  NAME_SIZE :: nat
  DEVPATH_SIZE :: nat
  namedev_name_device :: "udevice \<Rightarrow> sysfs_class_device \<Rightarrow> int \<times> udevice"
  libc_getpwnam :: "string \<Rightarrow> passwd option"
  libc_getgrnam :: "string \<Rightarrow> grp option"

definition IFNAMSIZ :: nat where
  "IFNAMSIZ = 16"

definition EINVAL :: int where
  "EINVAL = 22"

definition S_IFMT :: mode_t where
  "S_IFMT = 0xF000"

definition S_IFIFO :: mode_t where
  "S_IFIFO = 0x1000"

definition S_IFCHR :: mode_t where
  "S_IFCHR = 0x2000"

definition S_IFDIR :: mode_t where
  "S_IFDIR = 0x4000"

definition S_IFBLK :: mode_t where
  "S_IFBLK = 0x6000"

definition S_IFLNK :: mode_t where
  "S_IFLNK = 0xA000"

text \<open>
  A device number is modelled by the pair \<open>makedev\<close> builds it from: two device numbers
  are equal when their major and their minor numbers are.
\<close>

datatype dev_t = makedev cint cint

section \<open>The operating system\<close>

text \<open>
  What \<open>stat\<close> reports of a file: inode number, mode (type and permission bits), device
  number, owner, group, and for a symbolic link its target.
\<close>

record stat =
  st_ino :: nat
  st_mode :: mode_t
  st_rdev :: dev_t
  st_uid :: uid_t
  st_gid :: gid_t
  st_target :: string

text \<open>
  The calls udev\_add.c makes, in the order of a system call trace. Calls into the
  repository's other files (\<open>create_path\<close>, the \<open>selinux_\<close> functions, the naming and
  the database collaborators) are recorded as calls.
\<close>

datatype event =
    Stat string
  | Unlink string
  | Mknod string mode_t dev_t
  | Chmod string mode_t
  | Chown string uid_t gid_t
  | Create_path string
  | Symlink string string
  | Socket
  | Ioctl_SIOCSIFNAME string string
  | Close_socket
  | Setenv string string
  | Selinux_init
  | Selinux_restore
  | Selinux_setfilecon string mode_t
  | Selinux_setfscreatecon string mode_t
  | Namedev_name_device
  | Udev_db_add_device

text \<open>The calls that change the filesystem or a network interface.\<close>

fun mutating :: "event \<Rightarrow> bool" where
  "mutating (Unlink _) = True"
| "mutating (Mknod _ _ _) = True"
| "mutating (Chmod _ _) = True"
| "mutating (Chown _ _ _) = True"
| "mutating (Create_path _) = True"
| "mutating (Symlink _ _) = True"
| "mutating Socket = True"
| "mutating (Ioctl_SIOCSIFNAME _ _) = True"
| "mutating _ = False"

text \<open>
  The state outside the program: a file table keyed by path, the next free inode number,
  the process environment, the calls the kernel refuses (permissions, a read-only
  filesystem, a missing interface), and the trace of the calls made so far. The file table
  is flat: a path names its entry directly, directories are not listed, and \<open>stat\<close>
  reports the entry itself.
\<close>

record world =
  files :: "string \<Rightarrow> stat option"
  next_ino :: nat
  environ :: "string \<Rightarrow> string option"
  denied :: "event \<Rightarrow> bool"
  trace :: "event list"

definition log_event :: "event \<Rightarrow> world \<Rightarrow> world" where
  "log_event e w = w\<lparr>trace := trace w @ [e]\<rparr>"

definition sys_stat :: "string \<Rightarrow> world \<Rightarrow> stat option \<times> world" where
  "sys_stat file w =
     ((if denied w (Stat file) then None else files w file), log_event (Stat file) w)"

text \<open>\<open>unlink\<close> removes an entry that is there and is not a directory.\<close>

definition sys_unlink :: "string \<Rightarrow> world \<Rightarrow> int \<times> world" where
  "sys_unlink file w =
     (case files w file of
        None \<Rightarrow> (- 1, log_event (Unlink file) w)
      | Some st \<Rightarrow>
          if denied w (Unlink file) \<or> st_mode st AND S_IFMT = S_IFDIR
          then (- 1, log_event (Unlink file) w)
          else (0, log_event (Unlink file) (w\<lparr>files := (files w)(file := None)\<rparr>)))"

text \<open>
  \<open>mknod\<close> fails on a path that is taken; the new node gets a fresh inode number, the
  mode and device number asked for, and the caller (root) as owner.
\<close>

definition sys_mknod :: "string \<Rightarrow> mode_t \<Rightarrow> dev_t \<Rightarrow> world \<Rightarrow> int \<times> world" where
  "sys_mknod file m dev w =
     (if denied w (Mknod file m dev) \<or> files w file \<noteq> None
      then (- 1, log_event (Mknod file m dev) w)
      else (0, log_event (Mknod file m dev)
                 (w\<lparr>files := (files w)(file \<mapsto>
                       \<lparr>st_ino = next_ino w, st_mode = m, st_rdev = dev,
                        st_uid = 0, st_gid = 0, st_target = []\<rparr>),
                    next_ino := Suc (next_ino w)\<rparr>)))"

text \<open>\<open>chmod\<close> sets the permission bits and keeps the file type.\<close>

definition sys_chmod :: "string \<Rightarrow> mode_t \<Rightarrow> world \<Rightarrow> int \<times> world" where
  "sys_chmod file m w =
     (case files w file of
        None \<Rightarrow> (- 1, log_event (Chmod file m) w)
      | Some st \<Rightarrow>
          if denied w (Chmod file m) then (- 1, log_event (Chmod file m) w)
          else (0, log_event (Chmod file m)
                     (w\<lparr>files := (files w)(file \<mapsto>
                           st\<lparr>st_mode := (st_mode st AND S_IFMT) OR (m AND 0xFFF)\<rparr>)\<rparr>)))"

text \<open>\<open>chown\<close>; an id of \<open>-1\<close> leaves that id as it is.\<close>

definition sys_chown :: "string \<Rightarrow> uid_t \<Rightarrow> gid_t \<Rightarrow> world \<Rightarrow> int \<times> world" where
  "sys_chown file uid gid w =
     (case files w file of
        None \<Rightarrow> (- 1, log_event (Chown file uid gid) w)
      | Some st \<Rightarrow>
          if denied w (Chown file uid gid) then (- 1, log_event (Chown file uid gid) w)
          else (0, log_event (Chown file uid gid)
                     (w\<lparr>files := (files w)(file \<mapsto>
                           st\<lparr>st_uid := (if uid = - 1 then st_uid st else uid),
                              st_gid := (if gid = - 1 then st_gid st else gid)\<rparr>)\<rparr>)))"

definition sys_symlink :: "string \<Rightarrow> string \<Rightarrow> world \<Rightarrow> int \<times> world" where
  "sys_symlink target file w =
     (if denied w (Symlink target file) \<or> files w file \<noteq> None
      then (- 1, log_event (Symlink target file) w)
      else (0, log_event (Symlink target file)
                 (w\<lparr>files := (files w)(file \<mapsto>
                       \<lparr>st_ino = next_ino w, st_mode = S_IFLNK OR 0x1FF, st_rdev = makedev 0 0,
                        st_uid = 0, st_gid = 0, st_target = target\<rparr>),
                    next_ino := Suc (next_ino w)\<rparr>)))"

text \<open>
  \<open>socket\<close> returns a descriptor (3) or \<open>-1\<close>; the interface table of the kernel is not
  represented, and whether the rename \<open>ioctl\<close> succeeds is the kernel's answer.
\<close>

definition sys_socket :: "world \<Rightarrow> int \<times> world" where
  "sys_socket w = ((if denied w Socket then - 1 else 3), log_event Socket w)"

definition sys_ioctl_SIOCSIFNAME :: "string \<Rightarrow> string \<Rightarrow> world \<Rightarrow> int \<times> world" where
  "sys_ioctl_SIOCSIFNAME ifr_name ifr_newname w =
     ((if denied w (Ioctl_SIOCSIFNAME ifr_name ifr_newname) then - 1 else 0),
      log_event (Ioctl_SIOCSIFNAME ifr_name ifr_newname) w)"

definition sys_close :: "world \<Rightarrow> world" where
  "sys_close w = log_event Close_socket w"

definition sys_setenv :: "string \<Rightarrow> string \<Rightarrow> world \<Rightarrow> world" where
  "sys_setenv var val w = log_event (Setenv var val) (w\<lparr>environ := (environ w)(var \<mapsto> val)\<rparr>)"

text \<open>
  Modelled from the spec: \<open>create_path\<close> (udev\_utils.c, not among the sources) creates the
  intermediate directories of a path (mkdir -p semantics). Directories are not listed in
  the flat file table, so the call shows in the trace only.
\<close>

definition create_path :: "string \<Rightarrow> world \<Rightarrow> world" where
  "create_path file w = log_event (Create_path file) w"

text \<open>
  Modelled from the spec: the security-labelling subsystem (the \<open>selinux_\<close> functions of
  selinux.h) and the persistence collaborator (\<open>udev_db_add_device\<close> of udev\_db.c), not
  among the sources, are external collaborators. Their calls are recorded in the trace;
  udev\_add.c uses no result of theirs but for a debug message.
\<close>

definition selinux_init :: "world \<Rightarrow> world" where
  "selinux_init w = log_event Selinux_init w"

definition selinux_restore :: "world \<Rightarrow> world" where
  "selinux_restore w = log_event Selinux_restore w"

definition selinux_setfilecon :: "string \<Rightarrow> mode_t \<Rightarrow> world \<Rightarrow> world" where
  "selinux_setfilecon file m w = log_event (Selinux_setfilecon file m) w"

definition selinux_setfscreatecon :: "string \<Rightarrow> mode_t \<Rightarrow> world \<Rightarrow> world" where
  "selinux_setfscreatecon file m w = log_event (Selinux_setfscreatecon file m) w"

definition udev_db_add_device :: "udevice \<Rightarrow> world \<Rightarrow> world" where
  "udev_db_add_device udev w = log_event Udev_db_add_device w"

section \<open>String helpers of udev\_utils.h\<close>

text \<open>
  Modelled from the spec: the macros \<open>strfieldcpy\<close>, \<open>strfieldcat\<close>, \<open>strintcat\<close> and
  \<open>foreach_strpart\<close> (udev\_utils.h, not among the sources) are truncating copies into a
  fixed-size buffer: never past the buffer, always terminated. \<open>sz\<close> is the size of the
  destination buffer, so at most \<open>sz - 1\<close> characters are kept.
\<close>

definition strfieldcpy :: "nat \<Rightarrow> string \<Rightarrow> string" where
  "strfieldcpy sz from = take (sz - 1) from"

definition strfieldcat :: "nat \<Rightarrow> string \<Rightarrow> string \<Rightarrow> string" where
  "strfieldcat sz to from = to @ take (sz - 1 - length to) from"

definition strintcat :: "nat \<Rightarrow> string \<Rightarrow> nat \<Rightarrow> string" where
  "strintcat sz to i = to @ take (sz - 1 - length to) (dec i)"

text \<open>\<open>snprintf(buf, sz, "%s/%s", a, b)\<close> followed by \<open>buf[sz-1] = '\0'\<close>.\<close>

definition snprintf_path :: "nat \<Rightarrow> string \<Rightarrow> string \<Rightarrow> string" where
  "snprintf_path sz a b = take (sz - 1) (a @ ''/'' @ b)"

text \<open>
  Modelled from the spec: \<open>foreach_strpart(str, " ", pos, len)\<close> visits the
  space-separated tokens of \<open>str\<close> in order; empty tokens are skipped.
\<close>

fun strparts :: "string \<Rightarrow> string \<Rightarrow> string list" where
  "strparts [] tok = (if tok = [] then [] else [tok])"
| "strparts (c # cs) tok =
     (if c = CHR '' '' then (if tok = [] then strparts cs [] else tok # strparts cs [])
      else strparts cs (tok @ [c]))"

definition foreach_strpart :: "string \<Rightarrow> string list" where
  "foreach_strpart str = strparts str []"

section \<open>udev\_add.c\<close>

definition get_major_minor :: "sysfs_class_device \<Rightarrow> udevice \<Rightarrow> int \<times> udevice" where
  "get_major_minor class_dev udev =
     (case sysfs_get_classdev_attr class_dev ''dev'' of
        None \<Rightarrow> (- 1, udev)
      | Some val \<Rightarrow>
          (case sscanf_u_colon_u val (major udev) (minor udev) of
             (n, maj, mi) \<Rightarrow>
               if n \<noteq> 2 then (- 1, udev\<lparr>major := maj, minor := mi\<rparr>)
               else (0, udev\<lparr>major := maj, minor := mi\<rparr>)))"

text \<open>
  \<open>make_node\<close> from the label \<open>perms\<close> on; \<open>retval\<close> is the variable of that name, which
  no statement after the label assigns.
\<close>

definition make_node_perms :: "string \<Rightarrow> mode_t \<Rightarrow> uid_t \<Rightarrow> gid_t \<Rightarrow> int \<Rightarrow> world \<Rightarrow> int \<times> world" where
  "make_node_perms file m uid gid retval w =
     (case sys_chmod file m w of
        (rc, w1) \<Rightarrow>
          if rc \<noteq> 0 then (retval, w1)
          else if uid \<noteq> 0 \<or> gid \<noteq> 0 then
            (case sys_chown file uid gid w1 of
               (rc', w2) \<Rightarrow> if rc' \<noteq> 0 then (retval, w2) else (retval, w2))
          else (retval, w1))"

text \<open>\<open>make_node\<close> from the label \<open>create\<close> on.\<close>

definition make_node_create :: "string \<Rightarrow> cint \<Rightarrow> cint \<Rightarrow> mode_t \<Rightarrow> uid_t \<Rightarrow> gid_t \<Rightarrow> world \<Rightarrow> int \<times> world" where
  "make_node_create file maj mi m uid gid w =
     (case sys_mknod file m (makedev maj mi) (selinux_setfscreatecon file m w) of
        (retval, w1) \<Rightarrow>
          if retval \<noteq> 0 then (retval, w1)
          else make_node_perms file m uid gid retval w1)"

definition make_node :: "string \<Rightarrow> cint \<Rightarrow> cint \<Rightarrow> mode_t \<Rightarrow> uid_t \<Rightarrow> gid_t \<Rightarrow> world \<Rightarrow> int \<times> world" where
  "make_node file maj mi m uid gid w =
     (case sys_stat file w of
        (None, w1) \<Rightarrow> make_node_create file maj mi m uid gid w1
      | (Some stats, w1) \<Rightarrow>
          if (st_mode stats AND S_IFMT = S_IFBLK \<or> st_mode stats AND S_IFMT = S_IFCHR) \<and>
             st_rdev stats = makedev maj mi
          then make_node_perms file m uid gid 0 (selinux_setfilecon file (st_mode stats) w1)
          else (case sys_unlink file w1 of
                  (rc, w2) \<Rightarrow> make_node_create file maj mi m uid gid w2))"

text \<open>The type bit \<open>create_node\<close> ors into the mode; \<open>None\<close> is the default case.\<close>

definition node_type_bit :: "char \<Rightarrow> mode_t option" where
  "node_type_bit c =
     (if c = CHR ''b'' then Some S_IFBLK
      else if c = CHR ''c'' \<or> c = CHR ''u'' then Some S_IFCHR
      else if c = CHR ''p'' then Some S_IFIFO
      else None)"

text \<open>The owner and the group of the node: a number, or a name to look up; 0 otherwise.\<close>

definition owner_uid :: "config \<Rightarrow> string \<Rightarrow> uid_t" where
  "owner_uid cfg own =
     (if own = [] then 0
      else (case strtoul own of
              (idv, endptr) \<Rightarrow>
                if endptr = [] then ucast idv
                else (case libc_getpwnam cfg own of
                        None \<Rightarrow> 0
                      | Some pw \<Rightarrow> pw_uid pw)))"

definition group_gid :: "config \<Rightarrow> string \<Rightarrow> gid_t" where
  "group_gid cfg grp =
     (if grp = [] then 0
      else (case strtoul grp of
              (idv, endptr) \<Rightarrow>
                if endptr = [] then ucast idv
                else (case libc_getgrnam cfg grp of
                        None \<Rightarrow> 0
                      | Some gr \<Rightarrow> gr_gid gr)))"

text \<open>The loop over the partitions, \<open>i\<close> running through the list given.\<close>

fun create_partitions ::
  "config \<Rightarrow> string \<Rightarrow> udevice \<Rightarrow> uid_t \<Rightarrow> gid_t \<Rightarrow> int list \<Rightarrow> world \<Rightarrow> world" where
  "create_partitions cfg filename udev uid gid [] w = w"
| "create_partitions cfg filename udev uid gid (i # rest) w =
     (let partitionname = strintcat (NAME_SIZE cfg) (strfieldcpy (NAME_SIZE cfg) filename) (nat i)
      in create_partitions cfg filename udev uid gid rest
           (snd (make_node partitionname (major udev) (minor udev + of_int i) (mode udev) uid gid w)))"

text \<open>
  The two scanning loops that compute the relative link: the first returns \<open>i\<close> and
  \<open>tail\<close> after the common prefix of \<open>name\<close> and \<open>linkname\<close>.
\<close>

fun common_prefix_scan :: "string \<Rightarrow> string \<Rightarrow> nat \<Rightarrow> nat \<Rightarrow> nat \<times> nat" where
  "common_prefix_scan (a # as) (b # bs) i tail =
     (if a = b then common_prefix_scan as bs (i + 1) (if a = CHR ''/'' then i + 1 else tail)
      else (i, tail))"
| "common_prefix_scan _ _ i tail = (i, tail)"

fun dotdot_scan :: "nat \<Rightarrow> string \<Rightarrow> string \<Rightarrow> string" where
  "dotdot_scan sz [] linktarget = linktarget"
| "dotdot_scan sz (c # cs) linktarget =
     dotdot_scan sz cs (if c = CHR ''/'' then strfieldcat sz linktarget ''../'' else linktarget)"

definition link_target :: "config \<Rightarrow> string \<Rightarrow> string \<Rightarrow> string" where
  "link_target cfg nm linkname =
     (case common_prefix_scan nm linkname 0 0 of
        (i, tail) \<Rightarrow>
          strfieldcat (NAME_SIZE cfg) (dotdot_scan (NAME_SIZE cfg) (drop i linkname) [])
            (drop tail nm))"

text \<open>The loop over the symlink tokens.\<close>

fun create_symlinks :: "config \<Rightarrow> udevice \<Rightarrow> string list \<Rightarrow> world \<Rightarrow> world" where
  "create_symlinks cfg udev [] w = w"
| "create_symlinks cfg udev (linkname # rest) w =
     (let filename = snprintf_path (NAME_SIZE cfg) (udev_root cfg) linkname;
          w1 = (if \<not> test_run udev \<and> CHR ''/'' \<in> set linkname
                then create_path filename w else w);
          linktarget = link_target cfg (name udev) linkname;
          w2 = (if \<not> test_run udev
                then snd (sys_symlink linktarget filename
                       (snd (sys_unlink filename (selinux_setfscreatecon filename S_IFLNK w1))))
                else w1)
      in create_symlinks cfg udev rest w2)"

text \<open>\<open>create_node\<close> after the primary node: partitions, symlinks, \<open>return 0\<close>.\<close>

definition create_node_rest ::
  "config \<Rightarrow> string \<Rightarrow> udevice \<Rightarrow> uid_t \<Rightarrow> gid_t \<Rightarrow> world \<Rightarrow> int \<times> udevice \<times> world" where
  "create_node_rest cfg filename udev uid gid w =
     (let w1 = (if 0 < partitions udev \<and> \<not> test_run udev
                then create_partitions cfg filename udev uid gid [1..partitions udev] w
                else w)
      in (0, udev, create_symlinks cfg udev (foreach_strpart (symlink udev)) w1))"

definition create_node :: "config \<Rightarrow> udevice \<Rightarrow> world \<Rightarrow> int \<times> udevice \<times> world" where
  "create_node cfg udev0 w =
     (let filename = snprintf_path (NAME_SIZE cfg) (udev_root cfg) (name udev0) in
      case node_type_bit (type udev0) of
        None \<Rightarrow> (- EINVAL, udev0, w)
      | Some type_bit \<Rightarrow>
          let udev = udev0\<lparr>mode := mode udev0 OR type_bit\<rparr>;
              w1 = (if CHR ''/'' \<in> set (name udev) then create_path filename w else w);
              uid = owner_uid cfg (owner udev);
              gid = group_gid cfg (group udev)
          in if \<not> test_run udev then
               (case make_node filename (major udev) (minor udev) (mode udev) uid gid w1 of
                  (rc, w2) \<Rightarrow>
                    if rc \<noteq> 0 then (- 1, udev, w2)
                    else create_node_rest cfg filename udev uid gid w2)
             else create_node_rest cfg filename udev uid gid w1)"

definition rename_net_if :: "udevice \<Rightarrow> world \<Rightarrow> int \<times> world" where
  "rename_net_if udev w =
     (if test_run udev then (0, w)
      else (case sys_socket w of
              (sk, w1) \<Rightarrow>
                if sk < 0 then (- 1, w1)
                else (case sys_ioctl_SIOCSIFNAME (strfieldcpy IFNAMSIZ (kernel_name udev))
                             (strfieldcpy IFNAMSIZ (name udev)) w1 of
                        (retval, w2) \<Rightarrow> (retval, sys_close w2))))"

text \<open>The text of \<open>devpath\<close> up to and with its last \<open>/\<close> (\<open>pos[1] = '\0'\<close>).\<close>

definition upto_last_slash :: "string \<Rightarrow> string" where
  "upto_last_slash s = rev (dropWhile (\<lambda>c. c \<noteq> CHR ''/'') (rev s))"

text \<open>The branch of \<open>udev_add_device\<close> for a network interface whose name changes.\<close>

definition add_net_renamed :: "config \<Rightarrow> udevice \<Rightarrow> world \<Rightarrow> int \<times> udevice \<times> world" where
  "add_net_renamed cfg udev w =
     (case rename_net_if udev w of
        (retval, w1) \<Rightarrow>
          if retval \<noteq> 0 then (retval, udev, selinux_restore w1)
          else
            (if CHR ''/'' \<in> set (devpath udev) then
               (let udev1 = udev\<lparr>devpath :=
                       strfieldcat (DEVPATH_SIZE cfg) (upto_last_slash (devpath udev)) (name udev)\<rparr>;
                    w2 = sys_setenv ''DEVPATH'' (devpath udev1) w1
                in (retval, udev1\<lparr>devname := strfieldcpy (NAME_SIZE cfg) (name udev1)\<rparr>,
                    selinux_restore w2))
             else (retval, udev\<lparr>devname := strfieldcpy (NAME_SIZE cfg) (name udev)\<rparr>,
                   selinux_restore w1)))"

definition udev_add_device ::
  "config \<Rightarrow> udevice \<Rightarrow> sysfs_class_device \<Rightarrow> world \<Rightarrow> int \<times> udevice \<times> world" where
  "udev_add_device cfg udev0 class_dev w =
     (case (if type udev0 = CHR ''b'' \<or> type udev0 = CHR ''c''
            then get_major_minor class_dev udev0 else (0, udev0)) of
        (retval, udev1) \<Rightarrow>
          if retval \<noteq> 0 then (0, udev1, w)
          else
            (case namedev_name_device cfg udev1 class_dev of
               (rc, udev) \<Rightarrow>
                 let w1 = log_event Namedev_name_device w in
                 if rc \<noteq> 0 then (retval, udev, selinux_restore w1)
                 else
                   let w2 = selinux_init w1 in
                   if type udev = CHR ''b'' \<or> type udev = CHR ''c'' then
                     (case create_node cfg udev w2 of
                        (retval', udev2, w3) \<Rightarrow>
                          if retval' \<noteq> 0 then (retval', udev2, selinux_restore w3)
                          else (retval',
                                udev2\<lparr>devname :=
                                  snprintf_path (NAME_SIZE cfg) (udev_root cfg) (name udev2)\<rparr>,
                                selinux_restore (udev_db_add_device udev2 w3)))
                   else if type udev = CHR ''n'' then
                     (if name udev \<noteq> kernel_name udev then add_net_renamed cfg udev w2
                      else (retval, udev, selinux_restore w2))
                   else (retval, udev, selinux_restore w2)))"

section \<open>Concrete inputs\<close>

text \<open>
  A configuration with root \<open>/udev\<close>, the buffer sizes of the upstream header, a naming
  collaborator that accepts the descriptor as it is, and lookups that know no name; an
  empty world whose kernel refuses nothing; and a few descriptors.
\<close>

definition cfg_sample :: config where
  "cfg_sample =
     \<lparr>udev_root = ''/udev'', NAME_SIZE = 256, DEVPATH_SIZE = 256,
      namedev_name_device = (\<lambda>udev class_dev. (0, udev)),
      libc_getpwnam = (\<lambda>_. None), libc_getgrnam = (\<lambda>_. None)\<rparr>"

definition world_empty :: world where
  "world_empty =
     \<lparr>files = Map.empty, next_ino = 1, environ = Map.empty, denied = (\<lambda>_. False), trace = []\<rparr>"

definition dev_sda :: udevice where
  "dev_sda =
     \<lparr>devpath = ''/block/sda'', name = ''sda'', owner = [], group = ''6'', type = CHR ''b'',
      major = 0, minor = 0, mode = 0x1B0, symlink = [], partitions = 3,
      kernel_name = ''sda'', devname = [], test_run = False\<rparr>"

definition dev_eth0 :: udevice where
  "dev_eth0 =
     \<lparr>devpath = ''/class/net/eth0'', name = ''eth0'', owner = [], group = [], type = CHR ''n'',
      major = 0, minor = 0, mode = 0x1B0, symlink = [], partitions = 0,
      kernel_name = ''eth0'', devname = [], test_run = False\<rparr>"

definition dev_unknown :: udevice where
  "dev_unknown = dev_eth0\<lparr>type := CHR ''x''\<rparr>"

definition dev_sda_test :: udevice where
  "dev_sda_test = dev_sda\<lparr>name := ''disk/sda'', test_run := True\<rparr>"

text \<open>
  Worlds whose kernel refuses every \<open>chmod\<close>, or every \<open>chown\<close> (a caller without the
  privilege, a filesystem that does not take the call), and a world that already holds the
  block node 8:0 at \<open>/udev/sda\<close> with mode 0600.
\<close>

definition world_no_chmod :: world where
  "world_no_chmod =
     world_empty\<lparr>denied := (\<lambda>e. case e of Chmod _ _ \<Rightarrow> True | _ \<Rightarrow> False)\<rparr>"

definition world_no_chown :: world where
  "world_no_chown =
     world_empty\<lparr>denied := (\<lambda>e. case e of Chown _ _ _ \<Rightarrow> True | _ \<Rightarrow> False)\<rparr>"

definition node_sda :: stat where
  "node_sda =
     \<lparr>st_ino = 1, st_mode = S_IFBLK OR 0x180, st_rdev = makedev 8 0,
      st_uid = 0, st_gid = 0, st_target = []\<rparr>"

definition world_sda_no_chmod :: world where
  "world_sda_no_chmod =
     world_no_chmod\<lparr>files := [''/udev/sda'' \<mapsto> node_sda], next_ino := 2\<rparr>"

section \<open>Notions used by the properties of the node materializer\<close>

text \<open>
  An entry is settled for a request when applying the permission and ownership steps of
  \<open>make_node\<close> again would not change it: its permission bits are the requested ones
  where the kernel takes the \<open>chmod\<close>, and its owner and group are the requested ones
  where \<open>chown\<close> is reached and taken.
\<close>

definition settled :: "world \<Rightarrow> string \<Rightarrow> mode_t \<Rightarrow> uid_t \<Rightarrow> gid_t \<Rightarrow> stat \<Rightarrow> bool" where
  "settled w file m uid gid st =
     (if denied w (Chmod file m) then True
      else st_mode st = (st_mode st AND S_IFMT) OR (m AND 0xFFF) \<and>
           (if (uid \<noteq> 0 \<or> gid \<noteq> 0) \<and> \<not> denied w (Chown file uid gid)
            then st_uid st = (if uid = - 1 then st_uid st else uid) \<and>
                 st_gid st = (if gid = - 1 then st_gid st else gid)
            else True))"

text \<open>The calls one run of the permission and ownership steps makes on an entry that exists.\<close>

definition perms_calls :: "world \<Rightarrow> string \<Rightarrow> mode_t \<Rightarrow> uid_t \<Rightarrow> gid_t \<Rightarrow> event list" where
  "perms_calls w file m uid gid =
     Chmod file m #
     (if \<not> denied w (Chmod file m) \<and> (uid \<noteq> 0 \<or> gid \<noteq> 0) then [Chown file uid gid] else [])"


section \<open>Notions used by the properties of partition nodes\<close>



text \<open>No directory stands at a path.\<close>

definition no_directory :: "world \<Rightarrow> string \<Rightarrow> bool" where
  "no_directory w file =
     (case files w file of None \<Rightarrow> True | Some st \<Rightarrow> st_mode st AND S_IFMT \<noteq> S_IFDIR)"

text \<open>The kernel refuses no call.\<close>

definition permissive :: "world \<Rightarrow> bool" where
  "permissive w = (\<forall>e. \<not> denied w e)"

text \<open>The name the partition loop builds in \<open>partitionname\<close> for index \<open>i\<close>.\<close>

definition partitionname :: "config \<Rightarrow> string \<Rightarrow> int \<Rightarrow> string" where
  "partitionname cfg filename i =
     strintcat (NAME_SIZE cfg) (strfieldcpy (NAME_SIZE cfg) filename) (nat i)"

section \<open>Notions used by the properties of the relative link\<close>

text \<open>
  How a path text is read: its components are the texts between the \<open>/\<close>; an empty
  component and \<open>.\<close> stay in the directory, \<open>..\<close> goes to its parent, any other
  component goes down. \<open>resolve_abs\<close> is the place an absolute path names, as the list of
  the components from the root; \<open>resolve_link\<close> is the place the target of a symbolic link
  names, read from the directory that holds the link.
\<close>

fun split_path_acc :: "string \<Rightarrow> string \<Rightarrow> string list" where
  "split_path_acc [] cur = [cur]"
| "split_path_acc (c # cs) cur =
     (if c = CHR ''/'' then cur # split_path_acc cs [] else split_path_acc cs (cur @ [c]))"

definition split_path :: "string \<Rightarrow> string list" where
  "split_path p = split_path_acc p []"

fun walk :: "string list \<Rightarrow> string list \<Rightarrow> string list" where
  "walk dir [] = dir"
| "walk dir (c # cs) =
     (if c = [] \<or> c = ''.'' then walk dir cs
      else if c = ''..'' then walk (butlast dir) cs
      else walk (dir @ [c]) cs)"

definition resolve_abs :: "string \<Rightarrow> string list" where
  "resolve_abs p = walk [] (split_path p)"

definition resolve_link :: "string \<Rightarrow> string \<Rightarrow> string list" where
  "resolve_link linkpath target =
     (if target \<noteq> [] \<and> hd target = CHR ''/'' then resolve_abs target
      else walk (butlast (resolve_abs linkpath)) (split_path target))"

text \<open>A relative path in normal form: no component is empty, \<open>.\<close> or \<open>..\<close>.\<close>

definition normal_component :: "string \<Rightarrow> bool" where
  "normal_component c = (c \<noteq> [] \<and> c \<noteq> ''.'' \<and> c \<noteq> ''..'')"

definition normal_path :: "string \<Rightarrow> bool" where
  "normal_path p = list_all normal_component (split_path p)"

definition count_slashes :: "string \<Rightarrow> nat" where
  "count_slashes s = length (filter (\<lambda>c. c = CHR ''/'') s)"

text \<open>The longest common prefix of two texts.\<close>

fun common_prefix :: "string \<Rightarrow> string \<Rightarrow> string" where
  "common_prefix (a # as) (b # bs) = (if a = b then a # common_prefix as bs else [])"
| "common_prefix _ _ = []"

text \<open>
  The world that holds the block node 8:0 at \<open>/udev/sda\<close> and refuses nothing, the
  interface \<open>eth0\<close> that the naming collaborator renamed to \<open>lan0\<close>, a world that
  refuses the rename, and a configuration whose naming collaborator fails.
\<close>

definition world_sda_present :: world where
  "world_sda_present = world_empty\<lparr>files := [''/udev/sda'' \<mapsto> node_sda], next_ino := 2\<rparr>"

definition dev_lan0 :: udevice where
  "dev_lan0 = dev_eth0\<lparr>name := ''lan0''\<rparr>"

definition world_no_rename :: world where
  "world_no_rename =
     world_empty\<lparr>denied := (\<lambda>e. case e of Ioctl_SIOCSIFNAME _ _ \<Rightarrow> True | _ \<Rightarrow> False)\<rparr>"

definition cfg_naming_fails :: config where
  "cfg_naming_fails = cfg_sample\<lparr>namedev_name_device := (\<lambda>udev class_dev. (- 1, udev))\<rparr>"

text \<open>A configuration whose lookups are the klibc shims over the sample database.\<close>

definition cfg_klibc :: config where
  "cfg_klibc =
     cfg_sample\<lparr>libc_getpwnam := getpwnam count_to_newline 512 (Some passwd_sample),
                 libc_getgrnam := getgrnam count_to_newline 512 (Some passwd_sample)\<rparr>"
section \<open>Properties of the klibc shims\<close>

lemma get_id_line_other:
  "line_name line \<noteq> uname \<Longrightarrow> get_id_line uname line = None"
  by (auto simp: get_id_line_def strsep_def line_name_def split: prod.splits option.splits)

lemma db_lines_unfold:
  "cur < length buf \<Longrightarrow>
   db_lines bgl lsz buf cur =
     (if lsz \<le> bgl buf cur then db_lines bgl lsz buf (cur + (bgl buf cur + 1))
      else cstr (take (bgl buf cur) (drop cur buf)) # db_lines bgl lsz buf (cur + (bgl buf cur + 1)))"
  by (subst db_lines.simps) (simp add: Let_def)

lemma get_id_loop_unfold:
  "cur < length buf \<Longrightarrow>
   get_id_loop bgl lsz uname buf cur =
     (if lsz \<le> bgl buf cur then get_id_loop bgl lsz uname buf (cur + (bgl buf cur + 1))
      else (case get_id_line uname (cstr (take (bgl buf cur) (drop cur buf))) of
              None \<Rightarrow> get_id_loop bgl lsz uname buf (cur + (bgl buf cur + 1))
            | Some idv \<Rightarrow> idv))"
  by (subst get_id_loop.simps) (simp add: Let_def)

lemma get_id_loop_absent:
  "list_all (\<lambda>l. line_name l \<noteq> uname) (db_lines bgl lsz buf cur) \<Longrightarrow>
   get_id_loop bgl lsz uname buf cur = - 1"
proof (induction bgl lsz uname buf cur rule: get_id_loop.induct)
  case (1 bgl lsz uname buf cur)
  show ?case
  proof (cases "cur < length buf")
    case False
    then show ?thesis by (simp add: get_id_loop.simps)
  next
    case True
    note lt = this
    show ?thesis
    proof (cases "lsz \<le> bgl buf cur")
      case True
      from "1.prems" have "list_all (\<lambda>l. line_name l \<noteq> uname)
          (db_lines bgl lsz buf (cur + (bgl buf cur + 1)))"
        by (simp add: db_lines_unfold [OF lt] True)
      with "1.IH"(1) [OF lt refl refl True]
      have "get_id_loop bgl lsz uname buf (cur + (bgl buf cur + 1)) = - 1"
        by simp
      then show ?thesis
        by (simp add: get_id_loop_unfold [OF lt] True)
    next
      case False
      from "1.prems" have first: "line_name (cstr (take (bgl buf cur) (drop cur buf))) \<noteq> uname"
        and others: "list_all (\<lambda>l. line_name l \<noteq> uname)
          (db_lines bgl lsz buf (cur + (bgl buf cur + 1)))"
        by (simp_all add: db_lines_unfold [OF lt] False)
      have none: "get_id_line uname (cstr (take (bgl buf cur) (drop cur buf))) = None"
        using first by (rule get_id_line_other)
      from "1.IH"(2) [OF lt refl refl False none] others
      have "get_id_loop bgl lsz uname buf (cur + (bgl buf cur + 1)) = - 1"
        by simp
      then show ?thesis
        by (simp add: get_id_loop_unfold [OF lt] False none)
    qed
  qed
qed

lemma get_id_by_name_absent:
  "name_absent bgl lsz uname dbfile \<Longrightarrow> get_id_by_name bgl lsz uname dbfile = - 1"
  by (auto simp: name_absent_def get_id_by_name_def get_id_loop_absent split: option.splits)

lemma ucast_sentinel: "(ucast (- 1 :: ulong) :: 32 word) = - 1"
  by (rule bit_word_eqI) (simp add: bit_simps)

lemma unat_sentinel: "unat (- 1 :: 32 word) = 4294967295"
  by (simp add: unsigned_minus_1_eq_mask mask_eq_exp_minus_1)

text \<open>
  C10. The tests \<open>pw.pw_uid < 0\<close> and \<open>gr.gr_gid < 0\<close> compare unsigned values and are
  never true: \<open>getpwnam\<close> and \<open>getgrnam\<close> never return the null pointer. For a name
  that no line of the database file carries (and when the file cannot be mapped)
  \<open>get_id_by_name\<close> returns the sentinel \<open>(unsigned long) -1\<close>, and the caller gets a
  record whose id is \<open>2 ^ 32 - 1\<close>.
\<close>

theorem klibc_lookup_never_null:
  "getpwnam bgl lsz pw_file uname \<noteq> None \<and>
   getgrnam bgl lsz gr_file gname \<noteq> None \<and>
   (name_absent bgl lsz uname pw_file \<longrightarrow>
      get_id_by_name bgl lsz uname pw_file = - 1 \<and>
      (\<exists>pw. getpwnam bgl lsz pw_file uname = Some pw \<and> unat (pw_uid pw) = 2 ^ 32 - 1)) \<and>
   (name_absent bgl lsz gname gr_file \<longrightarrow>
      get_id_by_name bgl lsz gname gr_file = - 1 \<and>
      (\<exists>gr. getgrnam bgl lsz gr_file gname = Some gr \<and> unat (gr_gid gr) = 2 ^ 32 - 1))"
proof -
  have never_pw: "getpwnam bgl lsz pw_file uname \<noteq> None"
    by (simp add: getpwnam_def Let_def)
  have never_gr: "getgrnam bgl lsz gr_file gname \<noteq> None"
    by (simp add: getgrnam_def Let_def)
  have pw: "get_id_by_name bgl lsz uname pw_file = - 1 \<and>
      (\<exists>pw. getpwnam bgl lsz pw_file uname = Some pw \<and> unat (pw_uid pw) = 2 ^ 32 - 1)"
    if "name_absent bgl lsz uname pw_file"
    using get_id_by_name_absent [OF that]
    by (simp add: getpwnam_def Let_def ucast_sentinel unat_sentinel)
  have gr: "get_id_by_name bgl lsz gname gr_file = - 1 \<and>
      (\<exists>gr. getgrnam bgl lsz gr_file gname = Some gr \<and> unat (gr_gid gr) = 2 ^ 32 - 1)"
    if "name_absent bgl lsz gname gr_file"
    using get_id_by_name_absent [OF that]
    by (simp add: getgrnam_def Let_def ucast_sentinel unat_sentinel)
  from never_pw never_gr pw gr show ?thesis by blast
qed

lemma passwd_sample_lines:
  "db_lines count_to_newline 512 passwd_sample 0 = [''root:x:0:0:'', ''daemon:x:1:1:'']"
  by (simp add: db_lines.simps passwd_sample_def count_to_newline_def cstr_def)

theorem klibc_lookup_never_null_witness:
  "name_absent count_to_newline 512 ''nobody'' (Some passwd_sample) \<and>
   get_id_by_name count_to_newline 512 ''nobody'' (Some passwd_sample) = - 1 \<and>
   (\<exists>pw. getpwnam count_to_newline 512 (Some passwd_sample) ''nobody'' = Some pw \<and>
      unat (pw_uid pw) = 2 ^ 32 - 1) \<and>
   (\<exists>gr. getgrnam count_to_newline 512 (Some passwd_sample) ''nobody'' = Some gr \<and>
      unat (gr_gid gr) = 2 ^ 32 - 1)"
proof -
  have absent: "name_absent count_to_newline 512 ''nobody'' (Some passwd_sample)"
    by (simp add: name_absent_def passwd_sample_lines line_name_def)
  from absent
    klibc_lookup_never_null [of count_to_newline 512 "Some passwd_sample" "''nobody''"
      "Some passwd_sample" "''nobody''"]
  show ?thesis by blast
qed


section \<open>Major/minor resolution\<close>

lemma sscanf_fail:
  "sscanf_u_colon_u s a b = (n, a', b') \<Longrightarrow> n \<noteq> 2 \<Longrightarrow>
   b' = b \<and> (case scan_uint s of None \<Rightarrow> a' = a | Some (v, r) \<Rightarrow> a' = v)"
  by (auto simp: sscanf_u_colon_u_def split: option.splits prod.splits list.splits if_splits)

lemma get_major_minor_fail:
  assumes "fst (get_major_minor class_dev udev) \<noteq> 0"
  shows "snd (get_major_minor class_dev udev) =
           udev\<lparr>major := major (snd (get_major_minor class_dev udev))\<rparr>"
    and "case sysfs_get_classdev_attr class_dev ''dev'' of
           None \<Rightarrow> major (snd (get_major_minor class_dev udev)) = major udev
         | Some val \<Rightarrow>
            (case scan_uint val of
               None \<Rightarrow> major (snd (get_major_minor class_dev udev)) = major udev
             | Some (v, r) \<Rightarrow> major (snd (get_major_minor class_dev udev)) = v)"
proof -
  show "snd (get_major_minor class_dev udev) =
           udev\<lparr>major := major (snd (get_major_minor class_dev udev))\<rparr>"
  proof (cases "sysfs_get_classdev_attr class_dev ''dev''")
    case None
    then show ?thesis by (simp add: get_major_minor_def)
  next
    case (Some val)
    obtain n a' b' where sc: "sscanf_u_colon_u val (major udev) (minor udev) = (n, a', b')"
      by (cases "sscanf_u_colon_u val (major udev) (minor udev)") auto
    with Some assms have "n \<noteq> 2" by (auto simp: get_major_minor_def)
    with sscanf_fail [OF sc] have "b' = minor udev" by simp
    with Some sc \<open>n \<noteq> 2\<close> show ?thesis by (simp add: get_major_minor_def)
  qed
  show "case sysfs_get_classdev_attr class_dev ''dev'' of
           None \<Rightarrow> major (snd (get_major_minor class_dev udev)) = major udev
         | Some val \<Rightarrow>
            (case scan_uint val of
               None \<Rightarrow> major (snd (get_major_minor class_dev udev)) = major udev
             | Some (v, r) \<Rightarrow> major (snd (get_major_minor class_dev udev)) = v)"
  proof (cases "sysfs_get_classdev_attr class_dev ''dev''")
    case None
    then show ?thesis by (simp add: get_major_minor_def)
  next
    case (Some val)
    obtain n a' b' where sc: "sscanf_u_colon_u val (major udev) (minor udev) = (n, a', b')"
      by (cases "sscanf_u_colon_u val (major udev) (minor udev)") auto
    with Some assms have "n \<noteq> 2" by (auto simp: get_major_minor_def)
    with sscanf_fail [OF sc] Some sc show ?thesis
      by (auto simp: get_major_minor_def split: option.splits)
  qed
qed

lemma get_major_minor_test_run:
  "test_run (snd (get_major_minor class_dev udev)) = test_run udev"
  by (simp add: get_major_minor_def split: option.splits prod.splits)

lemma get_major_minor_type:
  "type (snd (get_major_minor class_dev udev)) = type udev"
  by (simp add: get_major_minor_def split: option.splits prod.splits)

lemma scan_uint_8x: "scan_uint ''8:x'' = Some (8, '':x'')"
  by (simp add: scan_uint_def skip_sign_def isspace_def isdigit_def digits_val_def digit_val_def)

lemma scan_uint_x: "scan_uint ''x'' = None"
  by (simp add: scan_uint_def skip_sign_def isspace_def isdigit_def)

lemma get_major_minor_8x:
  "get_major_minor [(''dev'', ''8:x'')] dev_sda = (- 1, dev_sda\<lparr>major := 8\<rparr>)"
  by (simp add: get_major_minor_def sysfs_get_classdev_attr_def sscanf_u_colon_u_def
      scan_uint_8x scan_uint_x dev_sda_def)

text \<open>
  C5, as the code has it. When \<open>get_major_minor\<close> returns failure, \<open>minor\<close> and every
  field other than \<open>major\<close> hold the values they held before the call. \<open>major\<close> holds
  its old value when the attribute is missing or its text does not begin with a number;
  when the text begins with a number but the colon or the second number is missing,
  \<open>sscanf\<close> has stored that first number in \<open>major\<close>.
\<close>

theorem get_major_minor_failure_frame:
  assumes "fst (get_major_minor class_dev udev) \<noteq> 0"
  shows "minor (snd (get_major_minor class_dev udev)) = minor udev \<and>
         snd (get_major_minor class_dev udev) =
           udev\<lparr>major := major (snd (get_major_minor class_dev udev))\<rparr> \<and>
         (case sysfs_get_classdev_attr class_dev ''dev'' of
            None \<Rightarrow> major (snd (get_major_minor class_dev udev)) = major udev
          | Some val \<Rightarrow>
             (case scan_uint val of
                None \<Rightarrow> major (snd (get_major_minor class_dev udev)) = major udev
              | Some (v, r) \<Rightarrow> major (snd (get_major_minor class_dev udev)) = v))"
proof -
  note frame = get_major_minor_fail [OF assms]
  have "minor (snd (get_major_minor class_dev udev)) =
        minor (udev\<lparr>major := major (snd (get_major_minor class_dev udev))\<rparr>)"
    using frame(1) by simp
  then have "minor (snd (get_major_minor class_dev udev)) = minor udev"
    by simp
  with frame show ?thesis by simp
qed

theorem get_major_minor_failure_frame_witness:
  "fst (get_major_minor [(''dev'', ''8:x'')] dev_sda) \<noteq> 0 \<and>
   minor (snd (get_major_minor [(''dev'', ''8:x'')] dev_sda)) = minor dev_sda \<and>
   major (snd (get_major_minor [(''dev'', ''8:x'')] dev_sda)) = 8"
  using get_major_minor_failure_frame [of "[(''dev'', ''8:x'')]" dev_sda]
  by (simp add: get_major_minor_8x)

text \<open>
  The claim C5 as stated fails: on the attribute text \<open>8:x\<close> the call returns failure and
  \<open>major\<close>, which was 0, is 8.
\<close>

theorem get_major_minor_failure_counterexample:
  "fst (get_major_minor [(''dev'', ''8:x'')] dev_sda) \<noteq> 0 \<and>
   major (snd (get_major_minor [(''dev'', ''8:x'')] dev_sda)) \<noteq> major dev_sda"
  by (simp add: get_major_minor_8x) (simp add: dev_sda_def)

section \<open>The orchestrator\<close>

text \<open>
  C9. For a block or char descriptor whose major/minor resolution fails,
  \<open>udev_add_device\<close> returns 0 and does nothing more: the world, trace included, is the
  one it was given (no naming call, no node creation), and the descriptor is the one it
  was given but for what \<open>sscanf\<close> stored in \<open>major\<close>; \<open>devname\<close> is not written.
\<close>

theorem udev_add_device_no_dev_file:
  assumes "type udev = CHR ''b'' \<or> type udev = CHR ''c''"
    and "fst (get_major_minor class_dev udev) \<noteq> 0"
  shows "\<exists>maj. udev_add_device cfg udev class_dev w = (0, udev\<lparr>major := maj\<rparr>, w)"
proof -
  from assms
  have "udev_add_device cfg udev class_dev w = (0, snd (get_major_minor class_dev udev), w)"
    by (auto simp: udev_add_device_def split: prod.splits)
  with get_major_minor_fail(1) [OF assms(2)] show ?thesis by metis
qed

theorem udev_add_device_no_dev_file_witness:
  "(type dev_sda = CHR ''b'' \<or> type dev_sda = CHR ''c'') \<and>
   fst (get_major_minor [] dev_sda) \<noteq> 0 \<and>
   (\<exists>maj. udev_add_device cfg_sample dev_sda [] world_empty =
      (0, dev_sda\<lparr>major := maj\<rparr>, world_empty))"
proof -
  have ty: "type dev_sda = CHR ''b'' \<or> type dev_sda = CHR ''c''"
    by (simp add: dev_sda_def)
  have miss: "fst (get_major_minor [] dev_sda) \<noteq> 0"
    by (simp add: get_major_minor_def sysfs_get_classdev_attr_def)
  from ty miss udev_add_device_no_dev_file [OF ty miss, of cfg_sample world_empty]
  show ?thesis by blast
qed

text \<open>
  C1, as the code has it. For a descriptor whose type is none of \<open>b\<close>, \<open>c\<close>, \<open>n\<close> (and
  is left so by the naming collaborator), \<open>udev_add_device\<close> calls the naming
  collaborator and returns 0. It makes no filesystem, interface or environment call: the
  world changes by the trace of the naming and labelling calls only, and the descriptor is
  as the naming collaborator left it.
\<close>

theorem udev_add_device_other_type:
  assumes "type udev \<noteq> CHR ''b''" and "type udev \<noteq> CHR ''c''" and "type udev \<noteq> CHR ''n''"
    and "namedev_name_device cfg udev class_dev = (rc, udev')"
    and "type udev' = type udev"
  shows "udev_add_device cfg udev class_dev w =
           (0, udev',
            w\<lparr>trace := trace w @ Namedev_name_device #
                 (if rc \<noteq> 0 then [] else [Selinux_init]) @ [Selinux_restore]\<rparr>)"
  using assms
  by (simp add: udev_add_device_def Let_def log_event_def selinux_init_def selinux_restore_def)

theorem udev_add_device_other_type_witness:
  "type dev_unknown \<noteq> CHR ''b'' \<and> type dev_unknown \<noteq> CHR ''c'' \<and>
   type dev_unknown \<noteq> CHR ''n'' \<and>
   udev_add_device cfg_sample dev_unknown [] world_empty =
     (0, dev_unknown,
      world_empty\<lparr>trace := [Namedev_name_device, Selinux_init, Selinux_restore]\<rparr>)"
proof -
  have ty: "type dev_unknown \<noteq> CHR ''b''" "type dev_unknown \<noteq> CHR ''c''"
    "type dev_unknown \<noteq> CHR ''n''"
    by (simp_all add: dev_unknown_def)
  have nm: "namedev_name_device cfg_sample dev_unknown [] = (0, dev_unknown)"
    by (simp add: cfg_sample_def)
  have tr: "trace world_empty = []"
    by (simp add: world_empty_def)
  from udev_add_device_other_type [OF ty nm refl, of world_empty] ty tr
  show ?thesis by simp
qed

text \<open>
  The claim C1 as stated fails: for a descriptor of type \<open>x\<close> the entry point returns 0,
  the success result.
\<close>

theorem udev_add_device_other_type_counterexample:
  "type dev_unknown \<notin> {CHR ''b'', CHR ''c'', CHR ''n''} \<and>
   \<not> fst (udev_add_device cfg_sample dev_unknown [] world_empty) \<noteq> 0"
  by (simp add: udev_add_device_def dev_unknown_def dev_eth0_def cfg_sample_def Let_def)

text \<open>
  C4, as the code has it. For a network descriptor whose resolved name equals
  \<open>kernel_name\<close>, \<open>udev_add_device\<close> returns 0 and invokes no interface rename (no
  socket, no ioctl); it does not write \<open>devname\<close>, which is left as it was.
\<close>

theorem udev_add_device_net_same_name:
  assumes "type udev = CHR ''n''"
    and "namedev_name_device cfg udev class_dev = (0, udev')"
    and "type udev' = CHR ''n''"
    and "name udev' = kernel_name udev'"
  shows "udev_add_device cfg udev class_dev w =
           (0, udev',
            w\<lparr>trace := trace w @ [Namedev_name_device, Selinux_init, Selinux_restore]\<rparr>)"
  using assms
  by (simp add: udev_add_device_def Let_def log_event_def selinux_init_def selinux_restore_def)

theorem udev_add_device_net_same_name_witness:
  "type dev_eth0 = CHR ''n'' \<and> name dev_eth0 = kernel_name dev_eth0 \<and>
   udev_add_device cfg_sample dev_eth0 [] world_empty =
     (0, dev_eth0,
      world_empty\<lparr>trace := [Namedev_name_device, Selinux_init, Selinux_restore]\<rparr>)"
proof -
  have ty: "type dev_eth0 = CHR ''n''" and same: "name dev_eth0 = kernel_name dev_eth0"
    by (simp_all add: dev_eth0_def)
  have nm: "namedev_name_device cfg_sample dev_eth0 [] = (0, dev_eth0)"
    by (simp add: cfg_sample_def)
  have tr: "trace world_empty = []"
    by (simp add: world_empty_def)
  from udev_add_device_net_same_name [OF ty nm ty same, of world_empty] ty same tr
  show ?thesis by simp
qed

text \<open>
  The claim C4 as stated fails: for the interface \<open>eth0\<close> whose resolved name is
  \<open>eth0\<close>, \<open>devname\<close> is empty on entry and still empty on return; it does not equal
  \<open>kernel_name\<close>.
\<close>

theorem udev_add_device_net_same_name_counterexample:
  "type dev_eth0 = CHR ''n'' \<and> name dev_eth0 = kernel_name dev_eth0 \<and>
   devname (fst (snd (udev_add_device cfg_sample dev_eth0 [] world_empty))) \<noteq> kernel_name dev_eth0"
  by (simp add: udev_add_device_def dev_eth0_def cfg_sample_def Let_def)

section \<open>The node materializer\<close>

lemmas eval_defs = make_node_def make_node_create_def make_node_perms_def
  sys_stat_def sys_unlink_def sys_mknod_def sys_chmod_def sys_chown_def sys_symlink_def
  log_event_def selinux_setfilecon_def selinux_setfscreatecon_def
  S_IFMT_def S_IFBLK_def S_IFCHR_def S_IFIFO_def S_IFDIR_def S_IFLNK_def

text \<open>
  After the label \<open>perms\<close> no statement assigns \<open>retval\<close>: whatever \<open>chmod\<close> and
  \<open>chown\<close> answer, \<open>make_node\<close> returns the value \<open>retval\<close> had at the label, which is 0
  on both ways to it. A failure of \<open>mknod\<close> is returned.
\<close>

lemma make_node_perms_retval:
  "fst (make_node_perms file m uid gid retval w) = retval"
  by (simp add: make_node_perms_def split: prod.splits)

lemma make_node_create_result:
  "fst (make_node_create file maj mi m uid gid w) =
   fst (sys_mknod file m (makedev maj mi) (selinux_setfscreatecon file m w))"
  by (simp add: make_node_create_def make_node_perms_retval split: prod.splits)

text \<open>
  C2 fails on the code. Three runs of \<open>make_node\<close> for the block node 8:0 at
  \<open>/udev/sda\<close>, mode 0660, group 6: the node is created and \<open>chmod\<close> is refused
  (\<open>chown\<close> is then skipped); the node is created and \<open>chown\<close> is refused (the group stays
  0); the node is already there with mode 0600 and \<open>chmod\<close> is refused (the mode stays
  0600). Each time \<open>make_node\<close> returns 0.
\<close>

theorem make_node_chmod_chown_failure:
  "fst (make_node ''/udev/sda'' 8 0 (S_IFBLK OR 0x1B0) 0 6 world_no_chmod) = 0 \<and>
   trace (snd (make_node ''/udev/sda'' 8 0 (S_IFBLK OR 0x1B0) 0 6 world_no_chmod)) =
     [Stat ''/udev/sda'', Selinux_setfscreatecon ''/udev/sda'' (S_IFBLK OR 0x1B0),
      Mknod ''/udev/sda'' (S_IFBLK OR 0x1B0) (makedev 8 0),
      Chmod ''/udev/sda'' (S_IFBLK OR 0x1B0)] \<and>
   fst (make_node ''/udev/sda'' 8 0 (S_IFBLK OR 0x1B0) 0 6 world_no_chown) = 0 \<and>
   trace (snd (make_node ''/udev/sda'' 8 0 (S_IFBLK OR 0x1B0) 0 6 world_no_chown)) =
     [Stat ''/udev/sda'', Selinux_setfscreatecon ''/udev/sda'' (S_IFBLK OR 0x1B0),
      Mknod ''/udev/sda'' (S_IFBLK OR 0x1B0) (makedev 8 0),
      Chmod ''/udev/sda'' (S_IFBLK OR 0x1B0), Chown ''/udev/sda'' 0 6] \<and>
   map_option st_gid
     (files (snd (make_node ''/udev/sda'' 8 0 (S_IFBLK OR 0x1B0) 0 6 world_no_chown))
        ''/udev/sda'') = Some 0 \<and>
   fst (make_node ''/udev/sda'' 8 0 (S_IFBLK OR 0x1B0) 0 6 world_sda_no_chmod) = 0 \<and>
   trace (snd (make_node ''/udev/sda'' 8 0 (S_IFBLK OR 0x1B0) 0 6 world_sda_no_chmod)) =
     [Stat ''/udev/sda'', Selinux_setfilecon ''/udev/sda'' (S_IFBLK OR 0x180),
      Chmod ''/udev/sda'' (S_IFBLK OR 0x1B0)] \<and>
   map_option st_mode
     (files (snd (make_node ''/udev/sda'' 8 0 (S_IFBLK OR 0x1B0) 0 6 world_sda_no_chmod))
        ''/udev/sda'') = Some (S_IFBLK OR 0x180)"
proof -
  have a: "make_node ''/udev/sda'' 8 0 (S_IFBLK OR 0x1B0) 0 6 world_no_chmod =
     (0, world_no_chmod\<lparr>
        files := [''/udev/sda'' \<mapsto>
          \<lparr>st_ino = 1, st_mode = S_IFBLK OR 0x1B0, st_rdev = makedev 8 0,
           st_uid = 0, st_gid = 0, st_target = []\<rparr>],
        next_ino := 2,
        trace := [Stat ''/udev/sda'', Selinux_setfscreatecon ''/udev/sda'' (S_IFBLK OR 0x1B0),
                  Mknod ''/udev/sda'' (S_IFBLK OR 0x1B0) (makedev 8 0),
                  Chmod ''/udev/sda'' (S_IFBLK OR 0x1B0)]\<rparr>)"
    by (simp add: eval_defs world_no_chmod_def world_empty_def)
  have b: "make_node ''/udev/sda'' 8 0 (S_IFBLK OR 0x1B0) 0 6 world_no_chown =
     (0, world_no_chown\<lparr>
        files := [''/udev/sda'' \<mapsto>
          \<lparr>st_ino = 1, st_mode = S_IFBLK OR 0x1B0, st_rdev = makedev 8 0,
           st_uid = 0, st_gid = 0, st_target = []\<rparr>],
        next_ino := 2,
        trace := [Stat ''/udev/sda'', Selinux_setfscreatecon ''/udev/sda'' (S_IFBLK OR 0x1B0),
                  Mknod ''/udev/sda'' (S_IFBLK OR 0x1B0) (makedev 8 0),
                  Chmod ''/udev/sda'' (S_IFBLK OR 0x1B0), Chown ''/udev/sda'' 0 6]\<rparr>)"
    by (simp add: eval_defs world_no_chown_def world_empty_def)
  have c: "make_node ''/udev/sda'' 8 0 (S_IFBLK OR 0x1B0) 0 6 world_sda_no_chmod =
     (0, world_sda_no_chmod\<lparr>
        trace := [Stat ''/udev/sda'', Selinux_setfilecon ''/udev/sda'' (S_IFBLK OR 0x180),
                  Chmod ''/udev/sda'' (S_IFBLK OR 0x1B0)]\<rparr>)"
    by (simp add: eval_defs world_sda_no_chmod_def world_no_chmod_def world_empty_def node_sda_def)
  have d: "files world_sda_no_chmod ''/udev/sda'' = Some node_sda"
    by (simp add: world_sda_no_chmod_def)
  show ?thesis
    unfolding a b c by (simp add: d) (simp add: node_sda_def)
qed

section \<open>Test runs\<close>

lemma create_symlinks_test_run:
  "test_run udev \<Longrightarrow> create_symlinks cfg udev toks w = w"
  by (induction toks arbitrary: w) (simp_all add: Let_def)

lemma create_node_test_run:
  "test_run udev \<Longrightarrow>
   create_node cfg udev w =
     (case node_type_bit (type udev) of
        None \<Rightarrow> (- EINVAL, udev, w)
      | Some type_bit \<Rightarrow>
          (0, udev\<lparr>mode := mode udev OR type_bit\<rparr>,
           (if CHR ''/'' \<in> set (name udev)
            then create_path (snprintf_path (NAME_SIZE cfg) (udev_root cfg) (name udev)) w
            else w)))"
  by (simp add: create_node_def create_node_rest_def Let_def create_symlinks_test_run
      split: option.splits)

lemma rename_net_if_test_run: "test_run udev \<Longrightarrow> rename_net_if udev w = (0, w)"
  by (simp add: rename_net_if_def)

lemma node_type_bit_bc:
  "c = CHR ''b'' \<or> c = CHR ''c'' \<Longrightarrow> \<exists>b. node_type_bit c = Some b"
  by (auto simp: node_type_bit_def)

text \<open>
  C8 fails on the code in one place. With \<open>test_run\<close> set (and kept by the naming
  collaborator) \<open>udev_add_device\<close> returns 0, and the only call it makes that changes the
  filesystem or an interface is \<open>create_path\<close> for the primary node, made when the
  resolved name contains a \<open>/\<close>: \<open>create_node\<close> calls it before it looks at \<open>test_run\<close>,
  while the same call for a symlink is guarded by \<open>!udev->test_run\<close>.
\<close>

theorem udev_add_device_test_run:
  assumes tr: "test_run udev"
    and keep: "\<And>u c. test_run (snd (namedev_name_device cfg u c)) = test_run u"
  shows "fst (udev_add_device cfg udev class_dev w) = 0 \<and>
         (\<forall>e \<in> set (drop (length (trace w))
                       (trace (snd (snd (udev_add_device cfg udev class_dev w))))).
            mutating e \<longrightarrow>
              e = Create_path (snprintf_path (NAME_SIZE cfg) (udev_root cfg)
                    (name (fst (snd (udev_add_device cfg udev class_dev w))))) \<and>
              CHR ''/'' \<in> set (name (fst (snd (udev_add_device cfg udev class_dev w)))))"
proof -
  obtain retval udev1 where gm:
    "(if type udev = CHR ''b'' \<or> type udev = CHR ''c''
      then get_major_minor class_dev udev else (0, udev)) = (retval, udev1)"
    by (cases "if type udev = CHR ''b'' \<or> type udev = CHR ''c''
      then get_major_minor class_dev udev else (0, udev)") auto
  have tr1: "test_run udev1"
    using gm tr get_major_minor_test_run [of class_dev udev]
    by (auto split: if_splits)
  obtain rc udev2 where nm: "namedev_name_device cfg udev1 class_dev = (rc, udev2)"
    by (cases "namedev_name_device cfg udev1 class_dev") auto
  have tr2: "test_run udev2"
    using keep [of udev1 class_dev] nm tr1 by simp
  show ?thesis
  proof (cases "retval \<noteq> 0")
    case True
    with gm show ?thesis by (simp add: udev_add_device_def)
  next
    case False
    note r0 = this
    show ?thesis
    proof (cases "rc \<noteq> 0")
      case True
      with gm nm r0 show ?thesis
        by (simp add: udev_add_device_def Let_def log_event_def selinux_restore_def)
    next
      case False
      note rc0 = this
      show ?thesis
      proof (cases "type udev2 = CHR ''b'' \<or> type udev2 = CHR ''c''")
        case True
        then obtain b where b: "node_type_bit (type udev2) = Some b"
          using node_type_bit_bc by blast
        from True gm nm r0 rc0 b tr2 show ?thesis
          by (simp add: udev_add_device_def Let_def log_event_def selinux_restore_def
              selinux_init_def create_node_test_run create_path_def udev_db_add_device_def)
      next
        case False
        note nbc = this
        show ?thesis
        proof (cases "type udev2 = CHR ''n'' \<and> name udev2 \<noteq> kernel_name udev2")
          case True
          with nbc gm nm r0 rc0 tr2 show ?thesis
            by (simp add: udev_add_device_def Let_def log_event_def selinux_restore_def
                selinux_init_def add_net_renamed_def rename_net_if_test_run sys_setenv_def)
        next
          case False
          with nbc gm nm r0 rc0 show ?thesis
            by (auto simp add: udev_add_device_def Let_def log_event_def selinux_restore_def
                selinux_init_def)
        qed
      qed
    qed
  qed
qed

lemma scan_uint_8_0: "scan_uint ''8:0'' = Some (8, '':0'')"
  by (simp add: scan_uint_def skip_sign_def isspace_def isdigit_def digits_val_def digit_val_def)

lemma scan_uint_0: "scan_uint ''0'' = Some (0, [])"
  by (simp add: scan_uint_def skip_sign_def isspace_def isdigit_def digits_val_def digit_val_def)

lemma get_major_minor_8_0:
  "get_major_minor [(''dev'', ''8:0'')] udev = (0, udev\<lparr>major := 8, minor := 0\<rparr>)"
  by (simp add: get_major_minor_def sysfs_get_classdev_attr_def sscanf_u_colon_u_def
      scan_uint_8_0 scan_uint_0)

lemma udev_add_device_sda_test:
  "fst (udev_add_device cfg_sample dev_sda_test [(''dev'', ''8:0'')] world_empty) = 0 \<and>
   trace (snd (snd (udev_add_device cfg_sample dev_sda_test [(''dev'', ''8:0'')] world_empty))) =
     [Namedev_name_device, Selinux_init, Create_path ''/udev/disk/sda'',
      Udev_db_add_device, Selinux_restore]"
proof -
  have tr: "test_run (dev_sda_test\<lparr>major := 8, minor := 0\<rparr>)"
    by (simp add: dev_sda_test_def)
  show ?thesis
    by (simp add: udev_add_device_def get_major_minor_8_0 cfg_sample_def Let_def
        create_node_test_run [OF tr] world_empty_def)
      (simp add: dev_sda_test_def dev_sda_def node_type_bit_def log_event_def
        selinux_init_def selinux_restore_def udev_db_add_device_def create_path_def
        snprintf_path_def)
qed

theorem udev_add_device_test_run_witness:
  "test_run dev_sda_test \<and>
   fst (udev_add_device cfg_sample dev_sda_test [(''dev'', ''8:0'')] world_empty) = 0 \<and>
   filter mutating
     (trace (snd (snd (udev_add_device cfg_sample dev_sda_test [(''dev'', ''8:0'')] world_empty)))) =
     [Create_path ''/udev/disk/sda'']"
proof -
  have tr: "test_run dev_sda_test"
    by (simp add: dev_sda_test_def)
  have keep: "\<And>u c. test_run (snd (namedev_name_device cfg_sample u c)) = test_run u"
    by (simp add: cfg_sample_def)
  from udev_add_device_test_run [OF tr keep, of "[(''dev'', ''8:0'')]" world_empty]
  have "fst (udev_add_device cfg_sample dev_sda_test [(''dev'', ''8:0'')] world_empty) = 0"
    by blast
  with tr udev_add_device_sda_test show ?thesis by simp
qed

lemma chmod_keeps_type:
  "((x AND S_IFMT) OR (m AND 0xFFF)) AND S_IFMT = x AND (S_IFMT :: mode_t)"
  by (simp add: S_IFMT_def bit.conj_disj_distrib2 and.assoc)

text \<open>
  The permission and ownership steps on an entry that exists: the result code is the one
  passed in, only that entry changes, and it keeps its inode number, device number and
  file type and ends settled.
\<close>

lemma make_node_perms_exists:
  assumes "files w file = Some st"
  shows "\<exists>st'. make_node_perms file m uid gid r w =
           (r, w\<lparr>files := (files w)(file \<mapsto> st'),
                 trace := trace w @ perms_calls w file m uid gid\<rparr>) \<and>
         st_ino st' = st_ino st \<and> st_rdev st' = st_rdev st \<and>
         st_mode st' AND S_IFMT = st_mode st AND S_IFMT \<and>
         settled w file m uid gid st'"
proof (cases "denied w (Chmod file m)")
  case True
  with assms have "make_node_perms file m uid gid r w =
      (r, w\<lparr>files := (files w)(file \<mapsto> st), trace := trace w @ perms_calls w file m uid gid\<rparr>)"
    by (simp add: make_node_perms_def sys_chmod_def log_event_def perms_calls_def map_upd_triv)
  with True show ?thesis by (auto simp: settled_def)
next
  case False
  note chmod_ok = this
  define st1 where "st1 = st\<lparr>st_mode := (st_mode st AND S_IFMT) OR (m AND 0xFFF)\<rparr>"
  show ?thesis
  proof (cases "uid \<noteq> 0 \<or> gid \<noteq> 0")
    case False
    with assms chmod_ok have "make_node_perms file m uid gid r w =
      (r, w\<lparr>files := (files w)(file \<mapsto> st1), trace := trace w @ perms_calls w file m uid gid\<rparr>)"
      by (simp add: make_node_perms_def sys_chmod_def log_event_def perms_calls_def st1_def)
    with False chmod_ok show ?thesis
      by (auto simp: settled_def st1_def chmod_keeps_type)
  next
    case True
    note own = this
    show ?thesis
    proof (cases "denied w (Chown file uid gid)")
      case True
      with assms chmod_ok own have "make_node_perms file m uid gid r w =
        (r, w\<lparr>files := (files w)(file \<mapsto> st1), trace := trace w @ perms_calls w file m uid gid\<rparr>)"
        by (auto simp add: make_node_perms_def sys_chmod_def sys_chown_def log_event_def
            perms_calls_def st1_def)
      with True chmod_ok show ?thesis
        by (auto simp: settled_def st1_def chmod_keeps_type)
    next
      case False
      define st2 where "st2 = st1\<lparr>st_uid := (if uid = - 1 then st_uid st1 else uid),
                              st_gid := (if gid = - 1 then st_gid st1 else gid)\<rparr>"
      from False assms chmod_ok own have "make_node_perms file m uid gid r w =
        (r, w\<lparr>files := (files w)(file \<mapsto> st2), trace := trace w @ perms_calls w file m uid gid\<rparr>)"
        by (auto simp add: make_node_perms_def sys_chmod_def sys_chown_def log_event_def
            perms_calls_def st1_def st2_def)
      with False chmod_ok show ?thesis
        by (auto simp: settled_def st1_def st2_def chmod_keeps_type)
    qed
  qed
qed










section \<open>Partition nodes\<close>







text \<open>
  Where the kernel refuses nothing and no directory is in the way, \<open>make_node\<close> returns
  0 and leaves at the path a node with the requested device number; no other path changes.
\<close>

lemma make_node_create_permissive:
  assumes "permissive w" and "files w file = None"
  shows "\<exists>st w'. make_node_create file maj mi m uid gid w = (0, w') \<and>
           files w' = (files w)(file \<mapsto> st) \<and> st_rdev st = makedev maj mi \<and>
           denied w' = denied w"
proof -
  let ?new = "\<lparr>st_ino = next_ino w, st_mode = m, st_rdev = makedev maj mi,
               st_uid = 0, st_gid = 0, st_target = []\<rparr>"
  let ?w2 = "log_event (Mknod file m (makedev maj mi))
               ((selinux_setfscreatecon file m w)\<lparr>files := (files w)(file \<mapsto> ?new),
                  next_ino := Suc (next_ino w)\<rparr>)"
  from assms have mk:
    "sys_mknod file m (makedev maj mi) (selinux_setfscreatecon file m w) = (0, ?w2)"
    by (simp add: sys_mknod_def selinux_setfscreatecon_def log_event_def permissive_def)
  have ex: "files ?w2 file = Some ?new"
    by (simp add: log_event_def selinux_setfscreatecon_def)
  from make_node_perms_exists [OF ex, of m uid gid 0] obtain st' where
    perms: "make_node_perms file m uid gid 0 ?w2 =
              (0, ?w2\<lparr>files := (files ?w2)(file \<mapsto> st'),
                      trace := trace ?w2 @ perms_calls ?w2 file m uid gid\<rparr>)"
    and rdev: "st_rdev st' = st_rdev ?new"
    by blast
  have "make_node_create file maj mi m uid gid w =
          (0, ?w2\<lparr>files := (files ?w2)(file \<mapsto> st'),
                  trace := trace ?w2 @ perms_calls ?w2 file m uid gid\<rparr>)"
    by (simp add: make_node_create_def mk perms)
  moreover have "files (?w2\<lparr>files := (files ?w2)(file \<mapsto> st'),
                  trace := trace ?w2 @ perms_calls ?w2 file m uid gid\<rparr>) = (files w)(file \<mapsto> st')"
    by (simp add: log_event_def selinux_setfscreatecon_def)
  moreover have "denied (?w2\<lparr>files := (files ?w2)(file \<mapsto> st'),
                  trace := trace ?w2 @ perms_calls ?w2 file m uid gid\<rparr>) = denied w"
    by (simp add: log_event_def selinux_setfscreatecon_def)
  ultimately show ?thesis
    using rdev by (metis stat.select_convs(3))
qed

lemma make_node_permissive:
  assumes perm: "permissive w" and nodir: "no_directory w file"
  shows "\<exists>st w'. make_node file maj mi m uid gid w = (0, w') \<and>
           files w' = (files w)(file \<mapsto> st) \<and> st_rdev st = makedev maj mi \<and>
           denied w' = denied w"
proof (cases "files w file")
  case None
  have p1: "permissive (log_event (Stat file) w)"
    using perm by (simp add: permissive_def log_event_def)
  have f1: "files (log_event (Stat file) w) file = None"
    using None by (simp add: log_event_def)
  from make_node_create_permissive [OF p1 f1, of maj mi m uid gid] None perm
  show ?thesis
    by (simp add: make_node_def sys_stat_def permissive_def log_event_def)
next
  case (Some stats)
  let ?w1 = "log_event (Stat file) w"
  have st: "sys_stat file w = (Some stats, ?w1)"
    using Some perm by (simp add: sys_stat_def permissive_def)
  show ?thesis
  proof (cases "(st_mode stats AND S_IFMT = S_IFBLK \<or> st_mode stats AND S_IFMT = S_IFCHR) \<and>
             st_rdev stats = makedev maj mi")
    case True
    let ?w2 = "selinux_setfilecon file (st_mode stats) ?w1"
    have ex: "files ?w2 file = Some stats"
      using Some by (simp add: selinux_setfilecon_def log_event_def)
    from make_node_perms_exists [OF ex, of m uid gid 0] obtain st' where
      perms: "make_node_perms file m uid gid 0 ?w2 =
                (0, ?w2\<lparr>files := (files ?w2)(file \<mapsto> st'),
                        trace := trace ?w2 @ perms_calls ?w2 file m uid gid\<rparr>)"
      and rdev: "st_rdev st' = st_rdev stats"
      by blast
    have "make_node file maj mi m uid gid w =
            (0, ?w2\<lparr>files := (files ?w2)(file \<mapsto> st'),
                    trace := trace ?w2 @ perms_calls ?w2 file m uid gid\<rparr>)"
      using True by (simp add: make_node_def st perms)
    moreover have "files (?w2\<lparr>files := (files ?w2)(file \<mapsto> st'),
                    trace := trace ?w2 @ perms_calls ?w2 file m uid gid\<rparr>) = (files w)(file \<mapsto> st')"
      by (simp add: selinux_setfilecon_def log_event_def)
    moreover have "denied (?w2\<lparr>files := (files ?w2)(file \<mapsto> st'),
                    trace := trace ?w2 @ perms_calls ?w2 file m uid gid\<rparr>) = denied w"
      by (simp add: selinux_setfilecon_def log_event_def)
    ultimately show ?thesis
      using rdev True by metis
  next
    case False
    let ?w2 = "log_event (Unlink file) (?w1\<lparr>files := (files ?w1)(file := None)\<rparr>)"
    from nodir Some have "st_mode stats AND S_IFMT \<noteq> S_IFDIR"
      by (simp add: no_directory_def)
    with Some perm have un: "sys_unlink file ?w1 = (0, ?w2)"
      by (simp add: sys_unlink_def permissive_def log_event_def)
    have p2: "permissive ?w2"
      using perm by (simp add: permissive_def log_event_def)
    have f2: "files ?w2 file = None"
      by (simp add: log_event_def)
    from make_node_create_permissive [OF p2 f2, of maj mi m uid gid] obtain st' w' where
      cr: "make_node_create file maj mi m uid gid ?w2 = (0, w')"
      and fs: "files w' = (files ?w2)(file \<mapsto> st')" and rdev: "st_rdev st' = makedev maj mi"
      and den: "denied w' = denied ?w2"
      by blast
    have "make_node file maj mi m uid gid w = (0, w')"
      by (simp only: make_node_def st prod.case option.case if_not_P [OF False] un cr)
    moreover have "files w' = (files w)(file \<mapsto> st')"
      using fs by (simp add: log_event_def)
    moreover have "denied w' = denied w"
      using den by (simp add: log_event_def)
    ultimately show ?thesis
      using rdev by blast
  qed
qed


lemma no_directory_cong:
  "files w' file = files w file \<Longrightarrow> no_directory w' file = no_directory w file"
  by (simp add: no_directory_def)

lemma permissive_cong: "denied w' = denied w \<Longrightarrow> permissive w' = permissive w"
  by (simp add: permissive_def)







lemma snprintf_path_fits:
  "length (a @ ''/'' @ b) < sz \<Longrightarrow> snprintf_path sz a b = a @ ''/'' @ b"
  by (simp add: snprintf_path_def)







section \<open>The relative link\<close>

lemma upto_last_slash_Cons:
  "upto_last_slash (a # s) =
     (if upto_last_slash s \<noteq> [] then a # upto_last_slash s
      else if a = CHR ''/'' then [a] else [])"
proof (cases "\<forall>c \<in> set (rev s). c \<noteq> CHR ''/''")
  case True
  then have "dropWhile (\<lambda>c. c \<noteq> CHR ''/'') (rev s) = []" by simp
  with True show ?thesis
    by (simp add: upto_last_slash_def dropWhile_append)
next
  case False
  then have ne: "dropWhile (\<lambda>c. c \<noteq> CHR ''/'') (rev s) \<noteq> []" by simp
  from False have "dropWhile (\<lambda>c. c \<noteq> CHR ''/'') (rev s @ [a]) =
      dropWhile (\<lambda>c. c \<noteq> CHR ''/'') (rev s) @ [a]"
    by (simp add: dropWhile_append1)
  with ne show ?thesis
    by (simp add: upto_last_slash_def)
qed

lemma upto_last_slash_Nil [simp]: "upto_last_slash [] = []"
  by (simp add: upto_last_slash_def)

text \<open>
  The first scanning loop in closed form: \<open>i\<close> advances by the length of the longest
  common prefix, and \<open>tail\<close> ends after the last \<open>/\<close> of that prefix.
\<close>

lemma common_prefix_scan_closed:
  "common_prefix_scan as bs i t0 =
     (i + length (common_prefix as bs),
      (if upto_last_slash (common_prefix as bs) = [] then t0
       else i + length (upto_last_slash (common_prefix as bs))))"
proof (induction as bs i t0 rule: common_prefix_scan.induct)
  case (1 a as b bs i tail)
  show ?case
  proof (cases "a = b")
    case True
    with 1 show ?thesis
      by (simp add: upto_last_slash_Cons)
  next
    case False
    then show ?thesis by simp
  qed
qed simp_all

lemma common_prefix_left: "as = common_prefix as bs @ drop (length (common_prefix as bs)) as"
  by (induction as bs rule: common_prefix.induct) simp_all

lemma common_prefix_right: "bs = common_prefix as bs @ drop (length (common_prefix as bs)) bs"
  by (induction as bs rule: common_prefix.induct) simp_all

lemma upto_last_slash_split:
  "s = upto_last_slash s @ rev (takeWhile (\<lambda>c. c \<noteq> CHR ''/'') (rev s))"
proof -
  have "rev (takeWhile (\<lambda>c. c \<noteq> CHR ''/'') (rev s) @ dropWhile (\<lambda>c. c \<noteq> CHR ''/'') (rev s)) =
        rev (rev s)"
    by (simp only: takeWhile_dropWhile_id)
  then show ?thesis
    by (simp only: rev_append rev_rev_ident upto_last_slash_def)
qed

lemma upto_last_slash_rest:
  "count_slashes (drop (length (upto_last_slash s)) s) = 0"
proof -
  have "drop (length (upto_last_slash s)) s = rev (takeWhile (\<lambda>c. c \<noteq> CHR ''/'') (rev s))"
    using upto_last_slash_split [of s] by (metis append_eq_conv_conj)
  moreover have "x \<noteq> CHR ''/''" if "x \<in> set (takeWhile (\<lambda>c. c \<noteq> CHR ''/'') (rev s))" for x
    using that by (rule set_takeWhileD [THEN conjunct2])
  ultimately show ?thesis
    by (simp add: count_slashes_def filter_empty_conv)
qed

lemma upto_last_slash_last:
  "upto_last_slash s \<noteq> [] \<Longrightarrow> last (upto_last_slash s) = CHR ''/''"
proof -
  assume "upto_last_slash s \<noteq> []"
  then have ne: "dropWhile (\<lambda>c. c \<noteq> CHR ''/'') (rev s) \<noteq> []"
    by (simp add: upto_last_slash_def)
  then have "hd (dropWhile (\<lambda>c. c \<noteq> CHR ''/'') (rev s)) = CHR ''/''"
    using hd_dropWhile [of "\<lambda>c. c \<noteq> CHR ''/''" "rev s"] by simp
  with ne show ?thesis
    by (simp add: upto_last_slash_def last_rev)
qed

lemma count_slashes_append [simp]:
  "count_slashes (a @ b) = count_slashes a + count_slashes b"
  by (simp add: count_slashes_def)

lemma count_slashes_Cons [simp]:
  "count_slashes (c # s) = (if c = CHR ''/'' then Suc (count_slashes s) else count_slashes s)"
  by (simp add: count_slashes_def)

lemma count_slashes_Nil [simp]: "count_slashes [] = 0"
  by (simp add: count_slashes_def)

lemma split_path_acc_slash:
  "split_path_acc (a @ CHR ''/'' # b) cur = split_path_acc a cur @ split_path b"
  by (induction a arbitrary: cur) (simp_all add: split_path_def)

lemma split_path_slash: "split_path (a @ CHR ''/'' # b) = split_path a @ split_path b"
  by (simp add: split_path_def split_path_acc_slash [of a b "[]", unfolded split_path_def])

lemma length_split_path_acc: "length (split_path_acc s cur) = Suc (count_slashes s)"
  by (induction s arbitrary: cur) simp_all

lemma length_split_path: "length (split_path s) = Suc (count_slashes s)"
  by (simp add: split_path_def length_split_path_acc)

lemma split_path_dotdot_step:
  "split_path (''../'' @ s) = ''..'' # split_path s"
proof -
  have "split_path (''..'' @ CHR ''/'' # s) = split_path ''..'' @ split_path s"
    by (rule split_path_slash)
  moreover have "split_path ''..'' = [''..'']"
    by (simp add: split_path_def)
  ultimately show ?thesis by simp
qed

lemma split_path_dotdots:
  "split_path (concat (replicate k ''../'') @ s) = replicate k ''..'' @ split_path s"
proof (induction k)
  case 0
  then show ?case by simp
next
  case (Suc k)
  have "concat (replicate (Suc k) ''../'') @ s = ''../'' @ (concat (replicate k ''../'') @ s)"
    by simp
  then have "split_path (concat (replicate (Suc k) ''../'') @ s) =
             ''..'' # split_path (concat (replicate k ''../'') @ s)"
    by (simp only: split_path_dotdot_step)
  with Suc.IH show ?case by (simp only: replicate_Suc append_Cons)
qed

lemma split_path_first:
  "normal_component (hd (split_path s)) \<Longrightarrow> s \<noteq> [] \<and> hd s \<noteq> CHR ''/''"
  by (cases s) (auto simp: split_path_def normal_component_def)

lemma walk_normal: "list_all normal_component cs \<Longrightarrow> walk dir cs = dir @ cs"
  by (induction cs arbitrary: dir) (simp_all add: normal_component_def)

lemma walk_append: "walk dir (xs @ ys) = walk (walk dir xs) ys"
  by (induction xs arbitrary: dir) simp_all

lemma walk_dotdots: "walk (d @ e) (replicate (length e) ''..'' @ cs) = walk d cs"
proof (induction e rule: rev_induct)
  case Nil
  then show ?case by simp
next
  case (snoc x xs)
  have "walk (d @ xs @ [x]) (replicate (length (xs @ [x])) ''..'' @ cs) =
        walk (butlast (d @ xs @ [x])) (replicate (length xs) ''..'' @ cs)"
    by simp
  also have "butlast (d @ xs @ [x]) = d @ xs"
    by (simp add: butlast_append)
  finally show ?case using snoc.IH by simp
qed

text \<open>The second scanning loop in closed form, when the buffer is long enough.\<close>

lemma dotdot_scan_closed:
  "length acc + 3 * count_slashes s < sz \<Longrightarrow>
   dotdot_scan sz s acc = acc @ concat (replicate (count_slashes s) ''../'')"
proof (induction s arbitrary: acc)
  case Nil
  then show ?case by simp
next
  case (Cons c cs)
  show ?case
  proof (cases "c = CHR ''/''")
    case True
    with Cons.prems have cat: "strfieldcat sz acc ''../'' = acc @ ''../''"
      by (simp add: strfieldcat_def)
    from True Cons.prems have "length (acc @ ''../'') + 3 * count_slashes cs < sz"
      by simp
    from Cons.IH [OF this] True cat show ?thesis
      by simp
  next
    case False
    with Cons show ?thesis by simp
  qed
qed

lemma link_target_closed:
  "link_target cfg nm t =
     strfieldcat (NAME_SIZE cfg)
       (dotdot_scan (NAME_SIZE cfg) (drop (length (common_prefix nm t)) t) [])
       (drop (length (upto_last_slash (common_prefix nm t))) nm)"
  by (simp add: link_target_def common_prefix_scan_closed)

lemma length_dotdots: "length (concat (replicate k ''../'')) = 3 * k"
  by (induction k) simp_all

lemma hd_dotdots: "0 < k \<Longrightarrow> hd (concat (replicate k ''../'') @ s) = CHR ''.''"
  by (cases k) simp_all

text \<open>
  The shared directory prefix splits both texts: what \<open>link_target\<close> computes is one
  \<open>../\<close> for every \<open>/\<close> of the token after that prefix, followed by the name after it.
\<close>

lemma link_target_shape:
  assumes fits: "3 * count_slashes t + length nm < NAME_SIZE cfg"
  defines "p \<equiv> upto_last_slash (common_prefix nm t)"
  shows "nm = p @ drop (length p) nm" and "t = p @ drop (length p) t"
    and "link_target cfg nm t =
           concat (replicate (count_slashes (drop (length p) t)) ''../'') @ drop (length p) nm"
proof -
  let ?l = "common_prefix nm t"
  let ?rest = "rev (takeWhile (\<lambda>c. c \<noteq> CHR ''/'') (rev ?l))"
  have l: "?l = p @ ?rest"
    unfolding p_def by (rule upto_last_slash_split)
  have nm: "nm = p @ ?rest @ drop (length ?l) nm"
    using common_prefix_left [of nm t] l by (metis append.assoc)
  have t: "t = p @ ?rest @ drop (length ?l) t"
    using common_prefix_right [of t nm] l by (metis append.assoc)
  from nm show nm': "nm = p @ drop (length p) nm"
    by (metis append_eq_conv_conj)
  from t show t': "t = p @ drop (length p) t"
    by (metis append_eq_conv_conj)
  from t have dt: "drop (length p) t = ?rest @ drop (length ?l) t"
    by (metis append_eq_conv_conj)
  have "drop (length p) ?l = ?rest"
    using l by (metis append_eq_conv_conj)
  with upto_last_slash_rest [of ?l] have "count_slashes ?rest = 0"
    by (simp add: p_def)
  with dt have k: "count_slashes (drop (length ?l) t) = count_slashes (drop (length p) t)"
    by simp
  let ?k = "count_slashes (drop (length p) t)"
  have "count_slashes t = count_slashes p + ?k"
    by (subst t') simp
  then have kle: "?k \<le> count_slashes t" by simp
  have nle: "length (drop (length p) nm) \<le> length nm" by simp
  from fits kle have small: "length ([]::string) + 3 * count_slashes (drop (length ?l) t) < NAME_SIZE cfg"
    by (simp add: k)
  have dots: "dotdot_scan (NAME_SIZE cfg) (drop (length ?l) t) [] = concat (replicate ?k ''../'')"
    using dotdot_scan_closed [OF small] by (simp add: k)
  from fits kle nle have "length (drop (length p) nm) \<le> NAME_SIZE cfg - 1 - 3 * ?k"
    by simp
  then show "link_target cfg nm t = concat (replicate ?k ''../'') @ drop (length p) nm"
    by (simp add: link_target_closed dots p_def [symmetric] strfieldcat_def length_dotdots)
qed

text \<open>
  C3, as the code has it. For a primary name and a symlink token that are relative paths
  in normal form (no component is empty, \<open>.\<close> or \<open>..\<close>) and short enough for the buffer
  (three characters for each \<open>/\<close> of the token plus the name fit in \<open>NAME_SIZE\<close>), the
  target \<open>create_node\<close> computes, read from the directory that holds the link
  \<open>root/token\<close>, names the place \<open>root/name\<close>.
\<close>

theorem link_target_resolves:
  assumes nm: "normal_path nm" and t: "normal_path t"
    and fits: "3 * count_slashes t + length nm < NAME_SIZE cfg"
  shows "resolve_link (udev_root cfg @ ''/'' @ t) (link_target cfg nm t) =
         resolve_abs (udev_root cfg @ ''/'' @ nm)"
proof -
  define p where "p = upto_last_slash (common_prefix nm t)"
  define n' where "n' = drop (length p) nm"
  define t' where "t' = drop (length p) t"
  define k where "k = count_slashes t'"
  define c where "c = (if p = [] then [] else split_path (butlast p))"
  define r where "r = walk [] (split_path (udev_root cfg))"
  note shape = link_target_shape [OF fits, folded p_def]
  have nm_eq: "nm = p @ n'" and t_eq: "t = p @ t'"
    using shape(1,2) by (simp_all add: n'_def t'_def)
  have target: "link_target cfg nm t = concat (replicate k ''../'') @ n'"
    using shape(3) by (simp add: k_def t'_def n'_def)
  have split: "split_path (p @ s) = c @ split_path s" for s
  proof (cases "p = []")
    case True
    then show ?thesis by (simp add: c_def)
  next
    case False
    with upto_last_slash_last [of "common_prefix nm t"] have "p = butlast p @ [CHR ''/'']"
      unfolding p_def by (metis append_butlast_last_id)
    then have eq: "p @ s = butlast p @ CHR ''/'' # s"
      by (metis append.assoc append_Cons append_Nil)
    from False have cdef: "c = split_path (butlast p)"
      by (simp add: c_def)
    show ?thesis
      unfolding cdef eq by (rule split_path_slash)
  qed
  have split_nm: "split_path nm = c @ split_path n'" and split_t: "split_path t = c @ split_path t'"
    by (simp_all add: nm_eq t_eq split)
  from nm split_nm have nc: "list_all normal_component c" and nn: "list_all normal_component (split_path n')"
    by (simp_all add: normal_path_def)
  from t split_t have nt: "list_all normal_component (split_path t')"
    by (simp add: normal_path_def)
  have ne_n: "split_path n' \<noteq> []" and ne_t: "split_path t' \<noteq> []"
    using length_split_path [of n'] length_split_path [of t'] by auto
  have relative: "\<not> (link_target cfg nm t \<noteq> [] \<and> hd (link_target cfg nm t) = CHR ''/'')"
  proof (cases "k = 0")
    case True
    from nn ne_n have "normal_component (hd (split_path n'))"
      by (cases "split_path n'") simp_all
    from split_path_first [OF this] True show ?thesis
      by (simp add: target)
  next
    case False
    then have "0 < k" by simp
    from hd_dotdots [OF this, of n'] have "hd (link_target cfg nm t) = CHR ''.''"
      unfolding target .
    then show ?thesis by simp
  qed
  have len: "length (butlast (split_path t')) = k"
    by (simp add: k_def length_split_path)
  have "resolve_abs (udev_root cfg @ ''/'' @ t) = walk r (split_path t)"
    using split_path_slash [of "udev_root cfg" t]
    by (simp add: resolve_abs_def walk_append r_def)
  also have "\<dots> = r @ c @ split_path t'"
    using t by (simp add: walk_normal normal_path_def split_t)
  finally have dir: "butlast (resolve_abs (udev_root cfg @ ''/'' @ t)) =
      (r @ c) @ butlast (split_path t')"
    using ne_t by (simp add: butlast_append)
  have "resolve_link (udev_root cfg @ ''/'' @ t) (link_target cfg nm t) =
      walk (butlast (resolve_abs (udev_root cfg @ ''/'' @ t))) (split_path (link_target cfg nm t))"
    by (simp only: resolve_link_def relative if_False)
  also have "\<dots> = walk ((r @ c) @ butlast (split_path t'))
        (replicate (length (butlast (split_path t'))) ''..'' @ split_path n')"
    by (simp only: dir target split_path_dotdots len)
  also have "\<dots> = walk (r @ c) (split_path n')"
    by (rule walk_dotdots)
  also have "\<dots> = r @ c @ split_path n'"
    using nn by (simp add: walk_normal)
  also have "\<dots> = walk r (split_path nm)"
    using nm by (simp add: walk_normal normal_path_def split_nm)
  also have "\<dots> = resolve_abs (udev_root cfg @ ''/'' @ nm)"
    using split_path_slash [of "udev_root cfg" nm]
    by (simp add: resolve_abs_def walk_append r_def)
  finally show ?thesis .
qed

lemma link_target_sample:
  "link_target cfg_sample ''disk/sda'' ''disk/by-id/foo'' = ''../sda''"
  by (simp add: link_target_def strfieldcat_def cfg_sample_def)

theorem link_target_resolves_witness:
  "normal_path ''disk/sda'' \<and> normal_path ''disk/by-id/foo'' \<and>
   link_target cfg_sample ''disk/sda'' ''disk/by-id/foo'' = ''../sda'' \<and>
   resolve_link ''/udev/disk/by-id/foo'' ''../sda'' = [''udev'', ''disk'', ''sda''] \<and>
   resolve_abs ''/udev/disk/sda'' = [''udev'', ''disk'', ''sda'']"
proof -
  have nm: "normal_path ''disk/sda''" and t: "normal_path ''disk/by-id/foo''"
    by (simp_all add: normal_path_def split_path_def normal_component_def)
  have fits: "3 * count_slashes ''disk/by-id/foo'' + length ''disk/sda'' < NAME_SIZE cfg_sample"
    by (simp add: cfg_sample_def)
  have root: "udev_root cfg_sample = ''/udev''"
    by (simp add: cfg_sample_def)
  have place: "resolve_abs ''/udev/disk/sda'' = [''udev'', ''disk'', ''sda'']"
    by (simp add: resolve_abs_def split_path_def)
  from link_target_resolves [OF nm t fits]
  have "resolve_link ''/udev/disk/by-id/foo'' ''../sda'' = resolve_abs ''/udev/disk/sda''"
    by (simp add: root link_target_sample)
  with nm t place show ?thesis
    by (simp add: link_target_sample)
qed

text \<open>
  The claim C3 as stated fails for a token that is not in normal form: for the name \<open>z\<close>
  and the token \<open>x//y\<close> the target computed is \<open>../../z\<close>, one \<open>../\<close> for each of the
  two \<open>/\<close>, which from the directory \<open>/udev/x\<close> of the link names \<open>/z\<close>, not
  \<open>/udev/z\<close>.
\<close>

theorem link_target_resolves_counterexample:
  "link_target cfg_sample ''z'' ''x//y'' = ''../../z'' \<and>
   resolve_link (udev_root cfg_sample @ ''/'' @ ''x//y'') (link_target cfg_sample ''z'' ''x//y'') =
     [''z''] \<and>
   resolve_abs (udev_root cfg_sample @ ''/'' @ ''z'') = [''udev'', ''z''] \<and>
   resolve_link (udev_root cfg_sample @ ''/'' @ ''x//y'') (link_target cfg_sample ''z'' ''x//y'') \<noteq>
     resolve_abs (udev_root cfg_sample @ ''/'' @ ''z'')"
proof -
  have target: "link_target cfg_sample ''z'' ''x//y'' = ''../../z''"
    by (simp add: link_target_def strfieldcat_def cfg_sample_def)
  have root: "udev_root cfg_sample = ''/udev''"
    by (simp add: cfg_sample_def)
  have a: "resolve_link ''/udev/x//y'' ''../../z'' = [''z'']"
    by (simp add: resolve_link_def resolve_abs_def split_path_def)
  have b: "resolve_abs ''/udev/z'' = [''udev'', ''z'']"
    by (simp add: resolve_abs_def split_path_def)
  show ?thesis
    by (simp add: target root a b)
qed

section \<open>Further properties\<close>

text \<open>
  X1. The return code of \<open>make_node\<close>: 0 on the preserve branch, and otherwise what \<open>mknod\<close>
  returned. What \<open>chmod\<close> and \<open>chown\<close> return never reaches the caller.
\<close>

theorem make_node_result:
  "fst (make_node file maj mi m uid gid w) =
     (case fst (sys_stat file w) of
        None \<Rightarrow>
          fst (sys_mknod file m (makedev maj mi)
                 (selinux_setfscreatecon file m (snd (sys_stat file w))))
      | Some stats \<Rightarrow>
          if (st_mode stats AND S_IFMT = S_IFBLK \<or> st_mode stats AND S_IFMT = S_IFCHR) \<and>
             st_rdev stats = makedev maj mi
          then 0
          else fst (sys_mknod file m (makedev maj mi)
                      (selinux_setfscreatecon file m
                         (snd (sys_unlink file (snd (sys_stat file w)))))))"
  by (simp add: make_node_def make_node_create_result make_node_perms_retval
      split: prod.splits option.splits)

text \<open>
  X2. A device number that changed: where the kernel refuses nothing and the path holds an
  entry, not a directory, with another device number (or of another kind), \<open>make_node\<close>
  unlinks it and makes a new node, with a fresh inode number and the requested device
  number.
\<close>

theorem make_node_renumber:
  assumes "permissive w" and "files w file = Some st"
    and "st_mode st AND S_IFMT \<noteq> S_IFDIR"
    and "\<not> ((st_mode st AND S_IFMT = S_IFBLK \<or> st_mode st AND S_IFMT = S_IFCHR) \<and>
            st_rdev st = makedev maj mi)"
  shows "fst (make_node file maj mi m uid gid w) = 0 \<and>
         (\<exists>st'. files (snd (make_node file maj mi m uid gid w)) file = Some st' \<and>
                st_rdev st' = makedev maj mi \<and> st_ino st' = next_ino w) \<and>
         take (length (trace w) + 2) (trace (snd (make_node file maj mi m uid gid w))) =
           trace w @ [Stat file, Unlink file]"
proof -
  let ?w1 = "log_event (Stat file) w"
  let ?w2 = "log_event (Unlink file) (?w1\<lparr>files := (files ?w1)(file := None)\<rparr>)"
  let ?new = "\<lparr>st_ino = next_ino w, st_mode = m, st_rdev = makedev maj mi,
               st_uid = 0, st_gid = 0, st_target = []\<rparr>"
  let ?w3 = "log_event (Mknod file m (makedev maj mi))
               ((selinux_setfscreatecon file m ?w2)\<lparr>files := (files ?w2)(file \<mapsto> ?new),
                  next_ino := Suc (next_ino ?w2)\<rparr>)"
  have st: "sys_stat file w = (Some st, ?w1)"
    using assms(1,2) by (simp add: sys_stat_def permissive_def)
  have un: "sys_unlink file ?w1 = (0, ?w2)"
    using assms(1,2,3) by (simp add: sys_unlink_def permissive_def log_event_def)
  have mk: "sys_mknod file m (makedev maj mi) (selinux_setfscreatecon file m ?w2) = (0, ?w3)"
    using assms(1) by (simp add: sys_mknod_def selinux_setfscreatecon_def log_event_def permissive_def)
  have ex: "files ?w3 file = Some ?new"
    by (simp add: log_event_def selinux_setfscreatecon_def)
  from make_node_perms_exists [OF ex, of m uid gid 0] obtain st' where
    perms: "make_node_perms file m uid gid 0 ?w3 =
              (0, ?w3\<lparr>files := (files ?w3)(file \<mapsto> st'),
                      trace := trace ?w3 @ perms_calls ?w3 file m uid gid\<rparr>)"
    and keep: "st_rdev st' = st_rdev ?new" "st_ino st' = st_ino ?new"
    by blast
  have run: "make_node file maj mi m uid gid w =
      (0, ?w3\<lparr>files := (files ?w3)(file \<mapsto> st'),
              trace := trace ?w3 @ perms_calls ?w3 file m uid gid\<rparr>)"
    by (simp only: make_node_def st prod.case option.case if_not_P [OF assms(4)] un
        make_node_create_def mk perms) simp
  have tr: "trace ?w3 = trace w @ [Stat file, Unlink file,
      Selinux_setfscreatecon file m, Mknod file m (makedev maj mi)]"
    by (simp add: log_event_def selinux_setfscreatecon_def)
  show ?thesis
    unfolding run using keep by (simp add: tr)
qed

theorem make_node_renumber_witness:
  "permissive world_sda_present \<and> files world_sda_present ''/udev/sda'' = Some node_sda \<and>
   st_rdev node_sda = makedev 8 0 \<and> st_ino node_sda = 1 \<and>
   fst (make_node ''/udev/sda'' 8 16 (S_IFBLK OR 0x1B0) 0 0 world_sda_present) = 0 \<and>
   map_option st_rdev
     (files (snd (make_node ''/udev/sda'' 8 16 (S_IFBLK OR 0x1B0) 0 0 world_sda_present))
        ''/udev/sda'') = Some (makedev 8 16) \<and>
   map_option st_ino
     (files (snd (make_node ''/udev/sda'' 8 16 (S_IFBLK OR 0x1B0) 0 0 world_sda_present))
        ''/udev/sda'') = Some 2"
proof -
  have perm: "permissive world_sda_present"
    by (simp add: permissive_def world_sda_present_def world_empty_def)
  have ex: "files world_sda_present ''/udev/sda'' = Some node_sda"
    by (simp add: world_sda_present_def)
  have nodir: "st_mode node_sda AND S_IFMT \<noteq> S_IFDIR"
    by (simp add: node_sda_def S_IFBLK_def S_IFMT_def S_IFDIR_def)
  have other: "\<not> ((st_mode node_sda AND S_IFMT = S_IFBLK \<or> st_mode node_sda AND S_IFMT = S_IFCHR) \<and>
            st_rdev node_sda = makedev 8 16)"
    by (simp add: node_sda_def)
  have nxt: "next_ino world_sda_present = 2"
    by (simp add: world_sda_present_def)
  from make_node_renumber [OF perm ex nodir other, of "S_IFBLK OR 0x1B0" 0 0] perm ex nxt
  show ?thesis
    by (auto simp: node_sda_def)
qed

section \<open>Network interfaces\<close>

text \<open>
  X3. A network descriptor whose resolved name differs from \<open>kernel_name\<close>, outside a test
  run, when the kernel takes the socket and the rename: \<open>udev_add_device\<close> returns 0, the
  trailing segment of \<open>devpath\<close> is replaced by the name, \<open>DEVPATH\<close> is set in the
  environment to the new path, and \<open>devname\<close> is the name.
\<close>

theorem udev_add_device_net_rename:
  assumes "type udev = CHR ''n''"
    and "namedev_name_device cfg udev class_dev = (0, udev')"
    and "type udev' = CHR ''n''"
    and "name udev' \<noteq> kernel_name udev'"
    and "\<not> test_run udev'"
    and "\<not> denied w Socket"
    and "\<not> denied w (Ioctl_SIOCSIFNAME (strfieldcpy IFNAMSIZ (kernel_name udev'))
                     (strfieldcpy IFNAMSIZ (name udev')))"
    and "CHR ''/'' \<in> set (devpath udev')"
    and "newpath = strfieldcat (DEVPATH_SIZE cfg) (upto_last_slash (devpath udev')) (name udev')"
  shows "udev_add_device cfg udev class_dev w =
           (0, udev'\<lparr>devpath := newpath, devname := strfieldcpy (NAME_SIZE cfg) (name udev')\<rparr>,
            w\<lparr>environ := (environ w)(''DEVPATH'' \<mapsto> newpath),
              trace := trace w @
                [Namedev_name_device, Selinux_init, Socket,
                 Ioctl_SIOCSIFNAME (strfieldcpy IFNAMSIZ (kernel_name udev'))
                   (strfieldcpy IFNAMSIZ (name udev')),
                 Close_socket, Setenv ''DEVPATH'' newpath, Selinux_restore]\<rparr>)"
  using assms
  by (simp add: udev_add_device_def Let_def add_net_renamed_def rename_net_if_def
      sys_socket_def sys_ioctl_SIOCSIFNAME_def sys_close_def sys_setenv_def
      log_event_def selinux_init_def selinux_restore_def)

text \<open>
  X4. When the kernel refuses the rename, \<open>udev_add_device\<close> returns the failure (\<open>-1\<close>) and
  rewrites nothing: the descriptor is as the naming collaborator left it and the
  environment is untouched.
\<close>

theorem udev_add_device_net_rename_fails:
  assumes "type udev = CHR ''n''"
    and "namedev_name_device cfg udev class_dev = (0, udev')"
    and "type udev' = CHR ''n''"
    and "name udev' \<noteq> kernel_name udev'"
    and "\<not> test_run udev'"
    and "\<not> denied w Socket"
    and "denied w (Ioctl_SIOCSIFNAME (strfieldcpy IFNAMSIZ (kernel_name udev'))
                     (strfieldcpy IFNAMSIZ (name udev')))"
  shows "udev_add_device cfg udev class_dev w =
           (- 1, udev',
            w\<lparr>trace := trace w @
                [Namedev_name_device, Selinux_init, Socket,
                 Ioctl_SIOCSIFNAME (strfieldcpy IFNAMSIZ (kernel_name udev'))
                   (strfieldcpy IFNAMSIZ (name udev')),
                 Close_socket, Selinux_restore]\<rparr>)"
  using assms
  by (simp add: udev_add_device_def Let_def add_net_renamed_def rename_net_if_def
      sys_socket_def sys_ioctl_SIOCSIFNAME_def sys_close_def
      log_event_def selinux_init_def selinux_restore_def)

text \<open>
  X5. When the naming collaborator fails, \<open>udev_add_device\<close> leaves through \<open>exit\<close> with
  \<open>retval\<close> still 0: it returns 0, after the naming call and the label restore only.
\<close>

theorem udev_add_device_naming_fails:
  assumes "(if type udev = CHR ''b'' \<or> type udev = CHR ''c''
            then get_major_minor class_dev udev else (0, udev)) = (0, udev1)"
    and "namedev_name_device cfg udev1 class_dev = (rc, udev')"
    and "rc \<noteq> 0"
  shows "udev_add_device cfg udev class_dev w =
           (0, udev', w\<lparr>trace := trace w @ [Namedev_name_device, Selinux_restore]\<rparr>)"
  unfolding udev_add_device_def assms(1)
  using assms(3) by (simp add: assms(2) Let_def log_event_def selinux_restore_def)

lemma upto_last_slash_eth0: "upto_last_slash ''/class/net/eth0'' = ''/class/net/''"
  by (simp add: upto_last_slash_def)

theorem udev_add_device_net_rename_witness:
  "type dev_lan0 = CHR ''n'' \<and> name dev_lan0 \<noteq> kernel_name dev_lan0 \<and>
   udev_add_device cfg_sample dev_lan0 [] world_empty =
     (0, dev_lan0\<lparr>devpath := ''/class/net/lan0'', devname := ''lan0''\<rparr>,
      world_empty\<lparr>environ := [''DEVPATH'' \<mapsto> ''/class/net/lan0''],
        trace := [Namedev_name_device, Selinux_init, Socket,
                  Ioctl_SIOCSIFNAME ''eth0'' ''lan0'', Close_socket,
                  Setenv ''DEVPATH'' ''/class/net/lan0'', Selinux_restore]\<rparr>)"
proof -
  have ty: "type dev_lan0 = CHR ''n''" and ne: "name dev_lan0 \<noteq> kernel_name dev_lan0"
    and nt: "\<not> test_run dev_lan0" and sl: "CHR ''/'' \<in> set (devpath dev_lan0)"
    and nm': "name dev_lan0 = ''lan0''" and kn: "kernel_name dev_lan0 = ''eth0''"
    and dp: "devpath dev_lan0 = ''/class/net/eth0''"
    by (simp_all add: dev_lan0_def dev_eth0_def)
  have nm: "namedev_name_device cfg_sample dev_lan0 [] = (0, dev_lan0)"
    by (simp add: cfg_sample_def)
  have so: "\<not> denied world_empty Socket"
    and io: "\<not> denied world_empty (Ioctl_SIOCSIFNAME (strfieldcpy IFNAMSIZ (kernel_name dev_lan0))
        (strfieldcpy IFNAMSIZ (name dev_lan0)))"
    by (simp_all add: world_empty_def)
  have np: "''/class/net/lan0'' =
      strfieldcat (DEVPATH_SIZE cfg_sample) (upto_last_slash (devpath dev_lan0)) (name dev_lan0)"
    by (simp add: dp nm' upto_last_slash_eth0 strfieldcat_def cfg_sample_def)
  have sizes: "strfieldcpy (NAME_SIZE cfg_sample) ''lan0'' = ''lan0''"
    "strfieldcpy IFNAMSIZ ''lan0'' = ''lan0''" "strfieldcpy IFNAMSIZ ''eth0'' = ''eth0''"
    by (simp_all add: strfieldcpy_def cfg_sample_def IFNAMSIZ_def)
  have w: "environ world_empty = Map.empty" "trace world_empty = []"
    by (simp_all add: world_empty_def)
  from udev_add_device_net_rename [OF ty nm ty ne nt so io sl np] ty ne
  show ?thesis
    by (simp add: nm' kn sizes w)
qed

theorem udev_add_device_net_rename_fails_witness:
  "type dev_lan0 = CHR ''n'' \<and> name dev_lan0 \<noteq> kernel_name dev_lan0 \<and>
   udev_add_device cfg_sample dev_lan0 [] world_no_rename =
     (- 1, dev_lan0,
      world_no_rename\<lparr>trace := [Namedev_name_device, Selinux_init, Socket,
                  Ioctl_SIOCSIFNAME ''eth0'' ''lan0'', Close_socket, Selinux_restore]\<rparr>)"
proof -
  have ty: "type dev_lan0 = CHR ''n''" and ne: "name dev_lan0 \<noteq> kernel_name dev_lan0"
    and nt: "\<not> test_run dev_lan0"
    and nm': "name dev_lan0 = ''lan0''" and kn: "kernel_name dev_lan0 = ''eth0''"
    by (simp_all add: dev_lan0_def dev_eth0_def)
  have nm: "namedev_name_device cfg_sample dev_lan0 [] = (0, dev_lan0)"
    by (simp add: cfg_sample_def)
  have so: "\<not> denied world_no_rename Socket"
    and io: "denied world_no_rename (Ioctl_SIOCSIFNAME (strfieldcpy IFNAMSIZ (kernel_name dev_lan0))
        (strfieldcpy IFNAMSIZ (name dev_lan0)))"
    by (simp_all add: world_no_rename_def world_empty_def)
  have sizes: "strfieldcpy IFNAMSIZ ''lan0'' = ''lan0''" "strfieldcpy IFNAMSIZ ''eth0'' = ''eth0''"
    by (simp_all add: strfieldcpy_def IFNAMSIZ_def)
  have w: "trace world_no_rename = []"
    by (simp add: world_no_rename_def world_empty_def)
  from udev_add_device_net_rename_fails [OF ty nm ty ne nt so io] ty ne
  show ?thesis
    by (simp add: nm' kn sizes w)
qed

theorem udev_add_device_naming_fails_witness:
  "udev_add_device cfg_naming_fails dev_eth0 [] world_empty =
     (0, dev_eth0, world_empty\<lparr>trace := [Namedev_name_device, Selinux_restore]\<rparr>)"
proof -
  have gm: "(if type dev_eth0 = CHR ''b'' \<or> type dev_eth0 = CHR ''c''
            then get_major_minor [] dev_eth0 else (0, dev_eth0)) = (0, dev_eth0)"
    by (simp add: dev_eth0_def)
  have nm: "namedev_name_device cfg_naming_fails dev_eth0 [] = (- 1, dev_eth0)"
    by (simp add: cfg_naming_fails_def)
  have w: "trace world_empty = []"
    by (simp add: world_empty_def)
  from udev_add_device_naming_fails [OF gm nm, of world_empty]
  show ?thesis
    by (simp add: w)
qed

section \<open>The klibc shims seen from \<open>create_node\<close>\<close>

text \<open>
  X6. With the klibc shims as lookups, an owner given by a name that no line of the password
  file carries is not reported as unknown: \<open>create_node\<close> takes the id \<open>2 ^ 32 - 1\<close>,
  which is \<open>(uid_t) -1\<close>.
\<close>

theorem owner_uid_unknown_name:
  assumes "libc_getpwnam cfg = getpwnam bgl lsz pw_file"
    and "name_absent bgl lsz own pw_file"
    and "own \<noteq> []" and "snd (strtoul own) \<noteq> []"
  shows "owner_uid cfg own = - 1 \<and> unat (owner_uid cfg own) = 2 ^ 32 - 1"
proof -
  from get_id_by_name_absent [OF assms(2)]
  have "getpwnam bgl lsz pw_file own = Some \<lparr>pw_uid = - 1\<rparr>"
    by (simp add: getpwnam_def Let_def ucast_sentinel)
  moreover obtain idv endptr where st: "strtoul own = (idv, endptr)"
    by (cases "strtoul own") auto
  moreover from st assms(4) have "endptr \<noteq> []" by simp
  ultimately have "owner_uid cfg own = - 1"
    using assms(1,3) by (simp add: owner_uid_def)
  then show ?thesis
    by (simp add: unat_sentinel)
qed

theorem owner_uid_unknown_name_witness:
  "name_absent count_to_newline 512 ''nobody'' (Some passwd_sample) \<and>
   owner_uid cfg_klibc ''nobody'' = - 1 \<and> unat (owner_uid cfg_klibc ''nobody'') = 2 ^ 32 - 1"
proof -
  have lk: "libc_getpwnam cfg_klibc = getpwnam count_to_newline 512 (Some passwd_sample)"
    by (simp add: cfg_klibc_def)
  have absent: "name_absent count_to_newline 512 ''nobody'' (Some passwd_sample)"
    by (simp add: name_absent_def passwd_sample_lines line_name_def)
  have ne: "''nobody'' \<noteq> []" by simp
  have sym: "snd (strtoul ''nobody'') \<noteq> []"
    by (simp add: strtoul_def skip_sign_def isspace_def isdigit_def)
  from owner_uid_unknown_name [OF lk absent ne sym] absent
  show ?thesis by blast
qed

section \<open>A test run and a real run\<close>

lemma get_major_minor_flag:
  "get_major_minor class_dev (udev\<lparr>test_run := t\<rparr>) =
     (fst (get_major_minor class_dev udev), (snd (get_major_minor class_dev udev))\<lparr>test_run := t\<rparr>)"
  by (simp add: get_major_minor_def split: option.splits prod.splits)

lemma create_node_name:
  "name (fst (snd (create_node cfg udev w))) = name udev"
  by (simp add: create_node_def create_node_rest_def Let_def split: option.splits prod.splits)

lemma add_net_renamed_devname:
  "fst (add_net_renamed cfg udev w) = 0 \<Longrightarrow>
   devname (fst (snd (add_net_renamed cfg udev w))) = strfieldcpy (NAME_SIZE cfg) (name udev)"
  by (simp add: add_net_renamed_def Let_def split: prod.splits if_splits)

lemma add_net_renamed_test_run:
  "test_run udev \<Longrightarrow>
   devname (fst (snd (add_net_renamed cfg udev w))) = strfieldcpy (NAME_SIZE cfg) (name udev)"
  by (simp add: add_net_renamed_def rename_net_if_def Let_def)

text \<open>
  X7. When a real run of \<open>udev_add_device\<close> returns 0, the test run of the same descriptor
  (with a naming collaborator that does not look at \<open>test_run\<close>) leaves the same
  \<open>devname\<close>, from whatever world it starts.
\<close>

theorem test_run_same_devname:
  assumes indep: "\<And>u. namedev_name_device cfg (u\<lparr>test_run := True\<rparr>) class_dev =
      (fst (namedev_name_device cfg u class_dev),
       (snd (namedev_name_device cfg u class_dev))\<lparr>test_run := True\<rparr>)"
    and real: "fst (udev_add_device cfg udev class_dev w) = 0"
  shows "devname (fst (snd (udev_add_device cfg (udev\<lparr>test_run := True\<rparr>) class_dev w'))) =
         devname (fst (snd (udev_add_device cfg udev class_dev w)))"
proof -
  obtain retval udev1 where gm:
    "(if type udev = CHR ''b'' \<or> type udev = CHR ''c''
      then get_major_minor class_dev udev else (0, udev)) = (retval, udev1)"
    by (cases "if type udev = CHR ''b'' \<or> type udev = CHR ''c''
      then get_major_minor class_dev udev else (0, udev)") auto
  then have gmt:
    "(if type (udev\<lparr>test_run := True\<rparr>) = CHR ''b'' \<or> type (udev\<lparr>test_run := True\<rparr>) = CHR ''c''
      then get_major_minor class_dev (udev\<lparr>test_run := True\<rparr>)
      else (0, udev\<lparr>test_run := True\<rparr>)) = (retval, udev1\<lparr>test_run := True\<rparr>)"
    by (auto simp: get_major_minor_flag split: if_splits)
  obtain rc udev2 where nm: "namedev_name_device cfg udev1 class_dev = (rc, udev2)"
    by (cases "namedev_name_device cfg udev1 class_dev") auto
  with indep [of udev1]
  have nmt: "namedev_name_device cfg (udev1\<lparr>test_run := True\<rparr>) class_dev =
      (rc, udev2\<lparr>test_run := True\<rparr>)"
    by simp
  have tr: "test_run (udev2\<lparr>test_run := True\<rparr>)" by simp
  show ?thesis
  proof (cases "retval \<noteq> 0")
    case True
    then show ?thesis
      unfolding udev_add_device_def gm gmt by simp
  next
    case False
    note r0 = this
    show ?thesis
    proof (cases "rc \<noteq> 0")
      case True
      with r0 show ?thesis
        unfolding udev_add_device_def gm gmt by (simp add: nm nmt Let_def)
    next
      case False
      note rc0 = this
      show ?thesis
      proof (cases "type udev2 = CHR ''b'' \<or> type udev2 = CHR ''c''")
        case True
        then obtain b where b: "node_type_bit (type udev2) = Some b"
          using node_type_bit_bc by blast
        let ?w2 = "selinux_init (log_event Namedev_name_device w)"
        obtain r u3 w3 where cn: "create_node cfg udev2 ?w2 = (r, u3, w3)"
          by (cases "create_node cfg udev2 ?w2") auto
        from create_node_name [of cfg udev2 ?w2] cn have n3: "name u3 = name udev2" by simp
        from real True r0 rc0 cn have "r = 0"
          unfolding udev_add_device_def gm by (simp add: nm Let_def split: if_splits)
        with True r0 rc0 cn n3 have realname:
          "devname (fst (snd (udev_add_device cfg udev class_dev w))) =
             snprintf_path (NAME_SIZE cfg) (udev_root cfg) (name udev2)"
          unfolding udev_add_device_def gm by (simp add: nm Let_def)
        from True r0 rc0 b have
          "devname (fst (snd (udev_add_device cfg (udev\<lparr>test_run := True\<rparr>) class_dev w'))) =
             snprintf_path (NAME_SIZE cfg) (udev_root cfg) (name udev2)"
          unfolding udev_add_device_def gmt
          by (simp add: nmt Let_def create_node_test_run [OF tr])
        with realname show ?thesis by simp
      next
        case False
        note nbc = this
        show ?thesis
        proof (cases "type udev2 = CHR ''n'' \<and> name udev2 \<noteq> kernel_name udev2")
          case True
          let ?w2 = "selinux_init (log_event Namedev_name_device w)"
          let ?w2' = "selinux_init (log_event Namedev_name_device w')"
          from real True nbc r0 rc0 have ok: "fst (add_net_renamed cfg udev2 ?w2) = 0"
            unfolding udev_add_device_def gm by (simp add: nm Let_def)
          from True nbc r0 rc0 have
            "devname (fst (snd (udev_add_device cfg udev class_dev w))) =
               devname (fst (snd (add_net_renamed cfg udev2 ?w2)))"
            unfolding udev_add_device_def gm by (simp add: nm Let_def)
          moreover from True nbc r0 rc0 have
            "devname (fst (snd (udev_add_device cfg (udev\<lparr>test_run := True\<rparr>) class_dev w'))) =
               devname (fst (snd (add_net_renamed cfg (udev2\<lparr>test_run := True\<rparr>) ?w2')))"
            unfolding udev_add_device_def gmt by (simp add: nmt Let_def)
          ultimately show ?thesis
            using add_net_renamed_devname [OF ok] add_net_renamed_test_run [OF tr, of cfg ?w2']
            by simp
        next
          case False
          with nbc r0 rc0 show ?thesis
            unfolding udev_add_device_def gm gmt by (auto simp add: nm nmt Let_def)
        qed
      qed
    qed
  qed
qed

theorem test_run_same_devname_witness:
  "fst (udev_add_device cfg_sample (dev_sda\<lparr>name := ''disk/sda''\<rparr>) [(''dev'', ''8:0'')] world_empty) = 0 \<and>
   devname (fst (snd (udev_add_device cfg_sample dev_sda_test [(''dev'', ''8:0'')] world_empty))) =
     ''/udev/disk/sda'' \<and>
   devname (fst (snd (udev_add_device cfg_sample (dev_sda\<lparr>name := ''disk/sda''\<rparr>)
     [(''dev'', ''8:0'')] world_empty))) = ''/udev/disk/sda''"
proof -
  let ?real = "dev_sda\<lparr>name := ''disk/sda''\<rparr>"
  have indep: "\<And>u. namedev_name_device cfg_sample (u\<lparr>test_run := True\<rparr>) [(''dev'', ''8:0'')] =
      (fst (namedev_name_device cfg_sample u [(''dev'', ''8:0'')]),
       (snd (namedev_name_device cfg_sample u [(''dev'', ''8:0'')]))\<lparr>test_run := True\<rparr>)"
    by (simp add: cfg_sample_def)
  have tr: "test_run (dev_sda_test\<lparr>major := 8, minor := 0\<rparr>)"
    by (simp add: dev_sda_test_def)
  have test: "devname (fst (snd (udev_add_device cfg_sample dev_sda_test [(''dev'', ''8:0'')] world_empty))) =
     ''/udev/disk/sda''"
    by (simp add: udev_add_device_def get_major_minor_8_0 cfg_sample_def Let_def
        create_node_test_run [OF tr])
      (simp add: dev_sda_test_def dev_sda_def node_type_bit_def snprintf_path_def)
  have real: "fst (udev_add_device cfg_sample ?real [(''dev'', ''8:0'')] world_empty) = 0"
  proof -
    have perm: "permissive (create_path ''/udev/disk/sda'' (selinux_init (log_event Namedev_name_device world_empty)))"
      by (simp add: permissive_def create_path_def selinux_init_def log_event_def world_empty_def)
    have nodir: "no_directory (create_path ''/udev/disk/sda'' (selinux_init (log_event Namedev_name_device world_empty)))
        ''/udev/disk/sda''"
      by (simp add: no_directory_def create_path_def selinux_init_def log_event_def world_empty_def)
    from make_node_permissive [OF perm nodir, of 8 0 "0x1B0 OR S_IFBLK" 0 6]
    obtain w2 where "make_node ''/udev/disk/sda'' 8 0 (0x1B0 OR S_IFBLK) 0 6
        (create_path ''/udev/disk/sda'' (selinux_init (log_event Namedev_name_device world_empty))) = (0, w2)"
      by blast
    moreover have "owner_uid cfg_sample [] = 0" "group_gid cfg_sample ''6'' = 6"
      by (simp_all add: owner_uid_def group_gid_def strtoul_def skip_sign_def isspace_def
          isdigit_def digits_val_def digit_val_def)
    ultimately show ?thesis
      by (simp add: udev_add_device_def get_major_minor_8_0 cfg_sample_def Let_def
          create_node_def create_node_rest_def dev_sda_def node_type_bit_def snprintf_path_def)
  qed
  have eq: "dev_sda_test = ?real\<lparr>test_run := True\<rparr>"
    by (simp add: dev_sda_test_def)
  from test_run_same_devname [OF indep real, of world_empty] test real
  show ?thesis
    by (simp add: eq)
qed
end
